theory Spec2Isabelle
  imports Complex_Main
begin

section \<open>Python values and calls into the environment\<close>

text \<open>
  A call whose result comes from outside the modelled code (the file system, the import
  machinery, a strategy's own methods) either raises an exception, kept as its message,
  or returns a value.
\<close>

datatype 'a outcome = Raises string | Returns 'a

text \<open>
  The Python values a strategy can hand to the pipeline. A dictionary is an association
  list with string keys, looked up with \<open>map_of\<close>. Numbers are exact: the rounding of
  Python floats is not modelled. A character stands for a code point below 256.
\<close>

datatype pyval =
    PNone
  | PBool bool
  | PInt int
  | PFloat rat
  | PStr string
  | PBytes string
  | PList "pyval list"
  | PDict "(string \<times> pyval) list"

text \<open>Truth value of an object, as \<open>not x\<close> and \<open>if x\<close> test it.\<close>

fun truthy :: "pyval \<Rightarrow> bool" where
  "truthy PNone = False"
| "truthy (PBool b) = b"
| "truthy (PInt i) = (i \<noteq> 0)"
| "truthy (PFloat r) = (r \<noteq> 0)"
| "truthy (PStr s) = (s \<noteq> [])"
| "truthy (PBytes s) = (s \<noteq> [])"
| "truthy (PList xs) = (xs \<noteq> [])"
| "truthy (PDict kvs) = (kvs \<noteq> [])"

text \<open>
  \<open>str.isspace\<close> on code points below 256, and the ASCII whitespace that
  \<open>bytes.strip\<close> removes.
\<close>

definition is_space :: "char \<Rightarrow> bool" where
  "is_space c =
     (let n = (of_char c :: nat)
      in (9 \<le> n \<and> n \<le> 13) \<or> (28 \<le> n \<and> n \<le> 32) \<or> n = 133 \<or> n = 160)"

definition is_ascii_space :: "char \<Rightarrow> bool" where
  "is_ascii_space c = (let n = (of_char c :: nat) in (9 \<le> n \<and> n \<le> 13) \<or> n = 32)"

definition strip_with :: "(char \<Rightarrow> bool) \<Rightarrow> string \<Rightarrow> string" where
  "strip_with sp s = rev (dropWhile sp (rev (dropWhile sp s)))"

definition str_strip :: "string \<Rightarrow> string" where
  "str_strip s = strip_with is_space s"

text \<open>\<open>x.strip()\<close>: defined on \<open>str\<close> and \<open>bytes\<close>, an AttributeError elsewhere.\<close>

fun py_strip :: "pyval \<Rightarrow> pyval outcome" where
  "py_strip (PStr s) = Returns (PStr (str_strip s))"
| "py_strip (PBytes s) = Returns (PBytes (strip_with is_ascii_space s))"
| "py_strip v = Raises ''AttributeError: object has no attribute strip''"

text \<open>
  \<open>s.split(sep)\<close> for a non-empty separator. The counter is the number of characters
  of a separator just found that are still to be skipped.
\<close>

fun split_from :: "string \<Rightarrow> nat \<Rightarrow> string \<Rightarrow> string \<Rightarrow> string list" where
  "split_from sep n acc [] = [rev acc]"
| "split_from sep (Suc n) acc (c # cs) = split_from sep n acc cs"
| "split_from sep 0 acc (c # cs) =
     (if take (length sep) (c # cs) = sep
      then rev acc # split_from sep (length sep - 1) [] cs
      else split_from sep 0 (c # acc) cs)"

definition py_split :: "string \<Rightarrow> string \<Rightarrow> string list" where
  "py_split sep s = split_from sep 0 [] s"

text \<open>\<open>sub in s\<close> on strings.\<close>

fun contains :: "string \<Rightarrow> string \<Rightarrow> bool" where
  "contains sub [] = (sub = [])"
| "contains sub (c # cs) = (take (length sub) (c # cs) = sub \<or> contains sub cs)"

section \<open>Static dependency and safety analyzer\<close>

text \<open>The three module sets of \<open>StrategyDependencyChecker\<close>.\<close>

definition allowed_stdlib :: "string set" where
  "allowed_stdlib =
     {''math'', ''random'', ''itertools'', ''collections'', ''functools'',
      ''operator'', ''json'', ''time'', ''datetime'', ''decimal'', ''fractions'',
      ''statistics'', ''copy'', ''typing'', ''dataclasses'', ''enum'', ''abc''}"

definition allowed_packages :: "string set" where
  "allowed_packages = {''numpy'', ''scipy'', ''pandas'', ''matplotlib'', ''seaborn''}"

definition forbidden :: "string set" where
  "forbidden =
     {''os'', ''sys'', ''subprocess'', ''threading'', ''multiprocessing'',
      ''socket'', ''urllib'', ''requests'', ''http'', ''ftplib'', ''smtplib'',
      ''sqlite3'', ''mysql'', ''psycopg2'', ''pymongo'', ''redis'',
      ''pickle'', ''shelve'', ''dbm'', ''marshal'', ''eval'', ''exec'',
      ''open'', ''file'', ''__import__'', ''importlib''}"

text \<open>
  The nodes that \<open>ast.walk\<close> yields, as far as the analyzer tells them apart: an
  \<open>import\<close> statement with the names of its aliases, a \<open>from ... import\<close> statement
  with its \<open>module\<close> attribute (\<open>None\<close> for \<open>from . import x\<close>), a call whose function
  is a plain name, and every other node.
\<close>

datatype ast_node =
    Import "string list"
  | ImportFrom "string option"
  | CallName string
  | OtherNode

text \<open>
  \<open>ast.parse(content)\<close> raises SyntaxError, raises another exception, or returns a
  tree, given here as its nodes in the order of \<open>ast.walk\<close>.
\<close>

datatype parse_result = SyntaxError string | ParseRaises string | Tree "ast_node list"

text \<open>
  The library functions the checks call: \<open>ast.parse\<close>, and \<open>re.search\<close> with the
  pattern, whether \<open>re.IGNORECASE\<close> is set, and the text.
\<close>

record pylib =
  ast_parse :: "string \<Rightarrow> parse_result"
  re_search :: "string \<Rightarrow> bool \<Rightarrow> string \<Rightarrow> bool"

text \<open>A candidate file as the file system delivers it: \<open>stat().st_size\<close> and the text read.\<close>

record source_file =
  stat_size :: "nat outcome"
  read_text :: "string outcome"

text \<open>
  The entries of \<open>errors\<close> in an analysis report:
  \<open>Syntax error: e\<close>, \<open>Dangerous function calls: [...]\<close>,
  \<open>Potential file operation detected: pattern\<close>, \<open>Analysis error: e\<close>.
\<close>

datatype analysis_error =
    SyntaxErrorMsg string
  | DangerousCalls "string list"
  | FileOperation string
  | AnalysisError string

record analysis_report =
  ar_file :: string
  ar_imports :: "string list"
  forbidden_imports :: "string list"
  unknown_imports :: "string list"
  ar_valid :: bool
  ar_errors :: "analysis_error list"

text \<open>\<open>name.split('.')[0]\<close>: the split of a string is never empty.\<close>

definition top_level :: "string \<Rightarrow> string" where
  "top_level n = hd (py_split ''.'' n)"

text \<open>The body shared by both import branches: record the name, then classify it.\<close>

definition record_import :: "string \<Rightarrow> analysis_report \<Rightarrow> analysis_report" where
  "record_import n r =
     (let module_name = top_level n;
          r1 = r\<lparr>ar_imports := ar_imports r @ [n]\<rparr>
      in if module_name \<in> forbidden
         then r1\<lparr>forbidden_imports := forbidden_imports r1 @ [n], ar_valid := False\<rparr>
         else if module_name \<notin> allowed_stdlib \<and> module_name \<notin> allowed_packages
         then r1\<lparr>unknown_imports := unknown_imports r1 @ [n]\<rparr>
         else r1)"

fun visit_node :: "ast_node \<Rightarrow> analysis_report \<Rightarrow> analysis_report" where
  "visit_node (Import names) r = fold record_import names r"
| "visit_node (ImportFrom None) r = r"
| "visit_node (ImportFrom (Some m)) r = (if m = [] then r else record_import m r)"
| "visit_node (CallName f) r = r"
| "visit_node OtherNode r = r"

text \<open>The second walk: calls of \<open>eval\<close>, \<open>exec\<close>, \<open>open\<close> and \<open>__import__\<close>.\<close>

fun dangerous_calls :: "ast_node list \<Rightarrow> string list" where
  "dangerous_calls [] = []"
| "dangerous_calls (CallName f # ns) =
     (if f \<in> set [''eval'', ''exec'', ''open'', ''__import__'']
      then f # dangerous_calls ns else dangerous_calls ns)"
| "dangerous_calls (n # ns) = dangerous_calls ns"

definition check_calls :: "ast_node list \<Rightarrow> analysis_report \<Rightarrow> analysis_report" where
  "check_calls nodes r =
     (let dc = dangerous_calls nodes
      in if dc \<noteq> []
         then r\<lparr>ar_valid := False,
                forbidden_imports := forbidden_imports r @ dc,
                ar_errors := ar_errors r @ [DangerousCalls dc]\<rparr>
         else r)"

text \<open>
  A backslash cannot stand inside a string literal, so the patterns are spelt with
  \<open>bsl\<close>: the first one is \<^verbatim>\<open>open\s*\(\<close>.
\<close>

definition bsl :: string where
  "bsl = [CHR 0x5C]"

definition file_patterns :: "string list" where
  "file_patterns =
     [''open'' @ bsl @ ''s*'' @ bsl @ ''('',
      ''with'' @ bsl @ ''s+open'' @ bsl @ ''s*'' @ bsl @ ''('',
      ''file'' @ bsl @ ''s*'' @ bsl @ ''('',
      bsl @ ''.read'' @ bsl @ ''s*'' @ bsl @ ''('',
      bsl @ ''.write'' @ bsl @ ''s*'' @ bsl @ ''('',
      bsl @ ''.save'' @ bsl @ ''s*'' @ bsl @ ''('',
      bsl @ ''.load'' @ bsl @ ''s*'' @ bsl @ ''('']"

definition scan_pattern :: "pylib \<Rightarrow> string \<Rightarrow> string \<Rightarrow> analysis_report \<Rightarrow> analysis_report" where
  "scan_pattern lib content pattern r =
     (if re_search lib pattern True content
      then r\<lparr>ar_errors := ar_errors r @ [FileOperation pattern], ar_valid := False\<rparr>
      else r)"

definition analyze_imports :: "pylib \<Rightarrow> string \<Rightarrow> source_file \<Rightarrow> analysis_report" where
  "analyze_imports lib name f =
     (let results = \<lparr>ar_file = name, ar_imports = [], forbidden_imports = [],
                      unknown_imports = [], ar_valid = True, ar_errors = []\<rparr>
      in case read_text f of
           Raises e \<Rightarrow> results\<lparr>ar_valid := False, ar_errors := [AnalysisError e]\<rparr>
         | Returns content \<Rightarrow>
             (case ast_parse lib content of
                SyntaxError e \<Rightarrow> results\<lparr>ar_valid := False, ar_errors := [SyntaxErrorMsg e]\<rparr>
              | ParseRaises e \<Rightarrow> results\<lparr>ar_valid := False, ar_errors := [AnalysisError e]\<rparr>
              | Tree nodes \<Rightarrow>
                  fold (scan_pattern lib content) file_patterns
                    (check_calls nodes (fold visit_node nodes results))))"

text \<open>
  The names written in the import statements of a tree: each alias of an \<open>import\<close>,
  and the module of a \<open>from ... import\<close> that has one.
\<close>

fun imported_names :: "ast_node list \<Rightarrow> string list" where
  "imported_names [] = []"
| "imported_names (Import names # ns) = names @ imported_names ns"
| "imported_names (ImportFrom (Some m) # ns) = m # imported_names ns"
| "imported_names (n # ns) = imported_names ns"

text \<open>
  A name is denied when the part before its first dot is on the deny list: \<open>os\<close> is,
  and so are \<open>os.path\<close> and \<open>urllib.request\<close>.
\<close>

definition denied :: "string \<Rightarrow> bool" where
  "denied n = (takeWhile (\<lambda>c. c \<noteq> CHR ''.'') n \<in> forbidden)"

section \<open>Requirements checker\<close>

text \<open>
  The entries of \<open>errors\<close> and \<open>warnings\<close> of a requirements report. The size is kept
  in bytes; the source prints it in KB, rounded to two places:
  \<open>File too large: ...KB (max 100KB)\<close>, the errors of the import analysis,
  \<open>Forbidden imports: [...]\<close>, \<open>No class definition found\<close>,
  \<open>Missing required method: m\<close>, \<open>Requirements check error: e\<close>.
\<close>

datatype req_error =
    FileTooLarge nat
  | ImportError analysis_error
  | ForbiddenImports "string list"
  | NoClassDefinition
  | MissingMethod string
  | RequirementsCheckError string

datatype req_warning =
    QuiteLarge nat
  | UnknownImports "string list"
  | NoDocstrings
  | SuspiciousPattern string

record size_info =
  size_bytes :: nat
  too_large :: bool

record complexity_info =
  total_lines :: nat
  non_empty_lines :: nat
  too_many_lines :: bool

record requirements_report =
  rq_file :: string
  rq_valid :: bool
  rq_errors :: "req_error list"
  rq_warnings :: "req_warning list"
  size_check :: "size_info option"
  complexity_check :: "complexity_info option"
  import_check :: "analysis_report option"

definition required_patterns :: "string list" where
  "required_patterns =
     [''def'' @ bsl @ ''s+place_bet'' @ bsl @ ''s*'' @ bsl @ ''('',
      ''def'' @ bsl @ ''s+get_defaults'' @ bsl @ ''s*'' @ bsl @ ''('']"

definition suspicious_patterns :: "string list" where
  "suspicious_patterns =
     [''['' @ [CHR 0x22] @ bsl @ [CHR 0x27] @ ''][A-Za-z]:'' @ bsl @ bsl,
      ''['' @ [CHR 0x22] @ bsl @ [CHR 0x27] @ '']/'',
      ''http[s]?://'',
      ''ftp://'',
      ''localhost'',
      ''127'' @ bsl @ ''.0'' @ bsl @ ''.0'' @ bsl @ ''.1'']"

text \<open>
  One turn of the loop over the required patterns. The separator of
  \<open>pattern.split(...)[1]\<close> is the three characters backslash, s, plus; an index out of
  range raises, which ends the check in its handler.
\<close>

definition check_required :: "pylib \<Rightarrow> string \<Rightarrow> string \<Rightarrow> requirements_report
    \<Rightarrow> requirements_report outcome" where
  "check_required lib content pattern r =
     (if \<not> re_search lib pattern False content
      then (let parts = py_split (bsl @ ''s+'') pattern
            in if length parts \<le> 1
               then Raises ''list index out of range''
               else Returns (r\<lparr>rq_valid := False,
                               rq_errors := rq_errors r @ [MissingMethod (parts ! 1)]\<rparr>))
      else Returns r)"

fun check_required_all :: "pylib \<Rightarrow> string \<Rightarrow> string list \<Rightarrow> requirements_report
    \<Rightarrow> requirements_report \<times> string option" where
  "check_required_all lib content [] r = (r, None)"
| "check_required_all lib content (p # ps) r =
     (case check_required lib content p r of
        Raises e \<Rightarrow> (r, Some e)
      | Returns r' \<Rightarrow> check_required_all lib content ps r')"

definition check_suspicious :: "pylib \<Rightarrow> string \<Rightarrow> string \<Rightarrow> requirements_report
    \<Rightarrow> requirements_report" where
  "check_suspicious lib content pattern r =
     (if re_search lib pattern False content
      then r\<lparr>rq_warnings := rq_warnings r @ [SuspiciousPattern pattern]\<rparr>
      else r)"

text \<open>The handler of the outer \<open>try\<close>: whatever was recorded so far stays.\<close>

definition requirements_failed :: "string \<Rightarrow> requirements_report \<Rightarrow> requirements_report" where
  "requirements_failed e r =
     r\<lparr>rq_valid := False, rq_errors := rq_errors r @ [RequirementsCheckError e]\<rparr>"

text \<open>The line count check.\<close>

definition check_lines :: "string \<Rightarrow> requirements_report \<Rightarrow> requirements_report" where
  "check_lines content r =
     (let lines = py_split [CHR 0x0A] content;
          line_count = length lines;
          non_empty = length (filter (\<lambda>l. str_strip l \<noteq> []) lines);
          r1 = r\<lparr>complexity_check :=
                   Some \<lparr>total_lines = line_count, non_empty_lines = non_empty,
                         too_many_lines = (line_count > 1000)\<rparr>\<rparr>
      in if line_count > 1000
         then r1\<lparr>rq_warnings := rq_warnings r1 @ [QuiteLarge line_count]\<rparr> else r1)"

text \<open>The import analysis and what the report takes over from it.\<close>

definition check_imports :: "analysis_report \<Rightarrow> requirements_report \<Rightarrow> requirements_report" where
  "check_imports import_results r =
     (let r1 = r\<lparr>import_check := Some import_results\<rparr>;
          r2 = (if \<not> ar_valid import_results
                then r1\<lparr>rq_valid := False,
                        rq_errors := rq_errors r1 @ map ImportError (ar_errors import_results)\<rparr>
                else r1);
          r3 = (if forbidden_imports import_results \<noteq> []
                then r2\<lparr>rq_errors := rq_errors r2 @
                          [ForbiddenImports (forbidden_imports import_results)]\<rparr>
                else r2)
      in if unknown_imports import_results \<noteq> []
         then r3\<lparr>rq_warnings := rq_warnings r3 @
                   [UnknownImports (unknown_imports import_results)]\<rparr>
         else r3)"

definition check_class :: "string \<Rightarrow> requirements_report \<Rightarrow> requirements_report" where
  "check_class content r =
     (if \<not> contains ''class '' content
      then r\<lparr>rq_valid := False, rq_errors := rq_errors r @ [NoClassDefinition]\<rparr>
      else r)"

definition check_docstrings :: "string \<Rightarrow> requirements_report \<Rightarrow> requirements_report" where
  "check_docstrings content r =
     (if \<not> contains (replicate 3 (CHR 0x22)) content \<and>
         \<not> contains (replicate 3 (CHR 0x27)) content
      then r\<lparr>rq_warnings := rq_warnings r @ [NoDocstrings]\<rparr> else r)"

text \<open>The checks on the text read, in the order of the source.\<close>

definition check_content :: "pylib \<Rightarrow> string \<Rightarrow> source_file \<Rightarrow> string
    \<Rightarrow> requirements_report \<Rightarrow> requirements_report" where
  "check_content lib name f content r =
     (case check_required_all lib content required_patterns
             (check_class content
               (check_imports (analyze_imports lib name f) (check_lines content r))) of
        (r1, Some e) \<Rightarrow> requirements_failed e r1
      | (r1, None) \<Rightarrow>
          fold (check_suspicious lib content) suspicious_patterns (check_docstrings content r1))"

text \<open>The file size check, with the limit of 100KB.\<close>

definition check_size :: "nat \<Rightarrow> requirements_report \<Rightarrow> requirements_report" where
  "check_size file_size r =
     (let r1 = r\<lparr>size_check :=
                   Some \<lparr>size_bytes = file_size, too_large = (file_size > 100 * 1024)\<rparr>\<rparr>
      in if file_size > 100 * 1024
         then r1\<lparr>rq_valid := False, rq_errors := rq_errors r1 @ [FileTooLarge file_size]\<rparr>
         else r1)"

definition initial_report :: "string \<Rightarrow> requirements_report" where
  "initial_report name =
     \<lparr>rq_file = name, rq_valid = True, rq_errors = [], rq_warnings = [],
      size_check = None, complexity_check = None, import_check = None\<rparr>"

definition check_strategy_requirements :: "pylib \<Rightarrow> string \<Rightarrow> source_file
    \<Rightarrow> requirements_report" where
  "check_strategy_requirements lib name f =
     (case stat_size f of
        Raises e \<Rightarrow> requirements_failed e (initial_report name)
      | Returns file_size \<Rightarrow>
          (case read_text f of
             Raises e \<Rightarrow> requirements_failed e (check_size file_size (initial_report name))
           | Returns content \<Rightarrow>
               check_content lib name f content (check_size file_size (initial_report name))))"

text \<open>
  A directory is the list of file names that \<open>glob("*.py")\<close> returns; \<open>fs\<close> says what
  the file system delivers for each name. The function returns \<open>all_valid\<close>.
\<close>

definition candidate_files :: "string list \<Rightarrow> string list" where
  "candidate_files names = filter (\<lambda>n. n \<noteq> ''__init__.py'') names"

definition check_all_requirements :: "pylib \<Rightarrow> (string \<Rightarrow> source_file) \<Rightarrow> string list \<Rightarrow> bool" where
  "check_all_requirements lib fs names =
     (let strategy_files = candidate_files names
      in if strategy_files = [] then True
         else fold (\<lambda>n all_valid.
                 if rq_valid (check_strategy_requirements lib n (fs n)) then all_valid else False)
               strategy_files True)"

text \<open>
  The end of \<open>main\<close> in each of the three scripts, \<open>sys.exit(0 if success else 1)\<close>.
\<close>

definition exit_code :: "bool \<Rightarrow> int" where
  "exit_code ok = (if ok then 0 else 1)"

text \<open>
  Two relations on reports, used to state what the later checks preserve: a report that
  is invalid and carries a given error, and two reports with the same verdict, errors
  and warnings.
\<close>

definition rejected :: "req_error \<Rightarrow> requirements_report \<Rightarrow> bool" where
  "rejected e r = (\<not> rq_valid r \<and> e \<in> set (rq_errors r))"

definition same_verdict :: "requirements_report \<Rightarrow> requirements_report \<Rightarrow> bool" where
  "same_verdict r r' =
     (rq_valid r = rq_valid r' \<and> rq_errors r = rq_errors r' \<and> rq_warnings r = rq_warnings r')"

section \<open>Dynamic load and metadata validator\<close>

text \<open>
  What reflection shows of a class: its \<open>__name__\<close>, whether it has the attributes
  \<open>place_bet\<close> and \<open>get_defaults\<close>, what the call \<open>cls.get_defaults()\<close> does, its
  \<open>__doc__\<close>, which is \<open>None\<close> without a docstring and may be any object when the
  class assigns it, and the parameter names of \<open>inspect.signature(cls.place_bet)\<close>,
  which raises for an attribute that is not callable.
\<close>

record pyclass =
  cls_name :: string
  has_place_bet :: bool
  has_get_defaults :: bool
  get_defaults :: "pyval outcome"
  cls_doc :: pyval
  place_bet_params :: "string list outcome"

text \<open>
  A loaded module is the list \<open>inspect.getmembers(module, inspect.isclass)\<close> of member
  names and classes. \<open>importlib.import_module\<close> raises ImportError, raises another
  exception, or returns the module; the fallback imports the base module, asks for a
  module specification (absent, or without a loader) and executes the module.
\<close>

type_synonym pymodule = "(string \<times> pyclass) list"

datatype import_result = ImportFailed string | ImportRaised string | Imported pymodule

record loader =
  import_module :: import_result
  import_base :: "unit outcome"
  spec_available :: bool
  exec_module :: "pymodule outcome"

text \<open>
  Errors: \<open>Could not load module specification\<close>, \<open>Error loading strategy: e\<close>,
  \<open>No strategy class found (...)\<close>, \<open>Missing required method: m\<close>,
  \<open>get_defaults() must return a dictionary\<close>, \<open>Missing required metadata field: f\<close>,
  \<open>Empty required metadata field: f\<close>, \<open>Error calling get_defaults(): e\<close>.
  Warnings: \<open>Multiple strategy classes found: [...]\<close>, \<open>Missing recommended field: f\<close>,
  \<open>Strategy class should have a comprehensive docstring\<close>,
  \<open>place_bet method should have 'game_state' as second parameter\<close>.
\<close>

datatype val_error =
    CouldNotLoadSpec
  | ErrorLoading string
  | NoStrategyClass
  | MissingRequiredMethod string
  | DefaultsNotDict
  | MissingField string
  | EmptyField string
  | ErrorCallingGetDefaults string

datatype val_warning =
    MultipleClasses "string list"
  | MissingRecommended string
  | NeedsDocstring
  | PlaceBetSignature

record validation_report =
  vr_file :: string
  vr_valid :: bool
  vr_errors :: "val_error list"
  vr_warnings :: "val_warning list"
  vr_metadata :: "(string \<times> pyval) list"

definition invalidate :: "val_error \<Rightarrow> validation_report \<Rightarrow> validation_report" where
  "invalidate e r = r\<lparr>vr_valid := False, vr_errors := vr_errors r @ [e]\<rparr>"

definition warn :: "val_warning \<Rightarrow> validation_report \<Rightarrow> validation_report" where
  "warn w r = r\<lparr>vr_warnings := vr_warnings r @ [w]\<rparr>"

definition endswith :: "string \<Rightarrow> string \<Rightarrow> bool" where
  "endswith s suffix = (length suffix \<le> length s \<and> drop (length s - length suffix) s = suffix)"

text \<open>The import with its fallback; \<open>Inl\<close> is the error the file is rejected with.\<close>

definition load_module :: "loader \<Rightarrow> val_error + pymodule" where
  "load_module L =
     (case import_module L of
        Imported m \<Rightarrow> Inr m
      | ImportRaised e \<Rightarrow> Inl (ErrorLoading e)
      | ImportFailed e \<Rightarrow>
          (case import_base L of
             Raises e' \<Rightarrow> Inl (ErrorLoading e')
           | Returns u \<Rightarrow>
               if \<not> spec_available L then Inl CouldNotLoadSpec
               else (case exec_module L of
                       Raises e' \<Rightarrow> Inl (ErrorLoading e')
                     | Returns m \<Rightarrow> Inr m)))"

definition strategy_classes :: "pymodule \<Rightarrow> pyclass list" where
  "strategy_classes m =
     map snd (filter (\<lambda>(name, obj). endswith name ''Strategy'' \<and> has_place_bet obj) m)"

text \<open>
  One turn of the loop over the required fields. \<open>defaults[field].strip()\<close> raises on a
  value without that method; the exception leaves the loop, with the report as it is.
\<close>

definition check_field :: "(string \<times> pyval) list \<Rightarrow> string \<Rightarrow> validation_report
    \<Rightarrow> validation_report outcome" where
  "check_field defaults field r =
     (case map_of defaults field of
        None \<Rightarrow> Returns (invalidate (MissingField field) r)
      | Some v \<Rightarrow>
          if \<not> truthy v then Returns (invalidate (EmptyField field) r)
          else (case py_strip v of
                  Raises e \<Rightarrow> Raises e
                | Returns s \<Rightarrow>
                    if s = PStr [] then Returns (invalidate (EmptyField field) r)
                    else Returns r))"

fun check_fields :: "(string \<times> pyval) list \<Rightarrow> string list \<Rightarrow> validation_report
    \<Rightarrow> validation_report \<times> string option" where
  "check_fields defaults [] r = (r, None)"
| "check_fields defaults (field # rest) r =
     (case check_field defaults field r of
        Raises e \<Rightarrow> (r, Some e)
      | Returns r' \<Rightarrow> check_fields defaults rest r')"

definition check_recommended :: "(string \<times> pyval) list \<Rightarrow> string \<Rightarrow> validation_report
    \<Rightarrow> validation_report" where
  "check_recommended defaults field r =
     (if map_of defaults field = None then warn (MissingRecommended field) r else r)"

text \<open>The block \<open>Validate get_defaults method\<close>.\<close>

definition validate_defaults :: "pyclass \<Rightarrow> validation_report \<Rightarrow> validation_report" where
  "validate_defaults c r =
     (if has_get_defaults c
      then (case get_defaults c of
              Raises e \<Rightarrow> invalidate (ErrorCallingGetDefaults e) r
            | Returns (PDict defaults) \<Rightarrow>
                (case check_fields defaults [''contributor_name'', ''strategy_description''] r of
                   (r1, Some e) \<Rightarrow> invalidate (ErrorCallingGetDefaults e) r1
                 | (r1, None) \<Rightarrow>
                     (fold (check_recommended defaults)
                        [''bankroll'', ''base_bet'', ''target_profit''] r1)
                       \<lparr>vr_metadata := defaults\<rparr>)
            | Returns v \<Rightarrow> invalidate DefaultsNotDict r)
      else r)"

text \<open>
  The docstring check: \<open>not cls.__doc__ or len(cls.__doc__.strip()) < 20\<close>. On a truthy
  value without \<open>strip\<close> the call raises, and the exception reaches the handler of
  the outer \<open>try\<close>.
\<close>

definition check_docstring :: "pyclass \<Rightarrow> validation_report \<Rightarrow> validation_report outcome" where
  "check_docstring c r =
     (if \<not> truthy (cls_doc c) then Returns (warn NeedsDocstring r)
      else (case py_strip (cls_doc c) of
              Raises e \<Rightarrow> Raises e
            | Returns (PStr d) \<Rightarrow>
                Returns (if length d < 20 then warn NeedsDocstring r else r)
            | Returns (PBytes d) \<Rightarrow>
                Returns (if length d < 20 then warn NeedsDocstring r else r)
            | Returns v \<Rightarrow> Raises ''TypeError: object has no len()''))"

text \<open>
  The signature check. An exception of \<open>inspect.signature\<close> reaches the handler of the
  outer \<open>try\<close>.
\<close>

definition check_signature :: "pyclass \<Rightarrow> validation_report \<Rightarrow> validation_report" where
  "check_signature c r =
     (if has_place_bet c
      then (case place_bet_params c of
              Raises e \<Rightarrow> invalidate (ErrorLoading e) r
            | Returns params \<Rightarrow>
                if length params < 2 \<or> params ! 1 \<noteq> ''game_state''
                then warn PlaceBetSignature r else r)
      else r)"

definition check_methods :: "pyclass \<Rightarrow> validation_report \<Rightarrow> validation_report" where
  "check_methods c r =
     (let r1 = (if \<not> has_place_bet c then invalidate (MissingRequiredMethod ''place_bet'') r
                else r)
      in if \<not> has_get_defaults c then invalidate (MissingRequiredMethod ''get_defaults'') r1
         else r1)"

text \<open>\<open>Path(p).name\<close>: the part of a path after its last slash.\<close>

definition path_name :: "string \<Rightarrow> string" where
  "path_name p = last (py_split ''/'' p)"

text \<open>
  The checks on the class found, from the required methods to the signature. An
  exception of the docstring check ends them: the handler marks the report invalid and
  the signature is not looked at.
\<close>

definition validate_class :: "pyclass \<Rightarrow> validation_report \<Rightarrow> validation_report" where
  "validate_class strategy_class r =
     (let r1 = validate_defaults strategy_class (check_methods strategy_class r)
      in case check_docstring strategy_class r1 of
           Raises e \<Rightarrow> invalidate (ErrorLoading e) r1
         | Returns r2 \<Rightarrow> check_signature strategy_class r2)"

definition initial_validation :: "string \<Rightarrow> validation_report" where
  "initial_validation path =
     \<lparr>vr_file = path_name path, vr_valid = True, vr_errors = [], vr_warnings = [],
      vr_metadata = []\<rparr>"

definition validate_strategy_file :: "string \<Rightarrow> loader \<Rightarrow> validation_report" where
  "validate_strategy_file path L =
     (case load_module L of
        Inl e \<Rightarrow> invalidate e (initial_validation path)
      | Inr m \<Rightarrow>
          (case strategy_classes m of
             [] \<Rightarrow> invalidate NoStrategyClass (initial_validation path)
           | strategy_class # others \<Rightarrow>
               validate_class strategy_class
                 (if length (strategy_class # others) > 1
                  then warn (MultipleClasses (map cls_name (strategy_class # others)))
                         (initial_validation path)
                  else initial_validation path)))"

text \<open>
  \<open>git diff --name-only\<close> in PR mode: the command cannot be run (an exception that is
  not caught), it fails (CalledProcessError), or it prints the changed paths.
\<close>

datatype git_result = GitRaised string | GitFailed | GitStdout string

text \<open>
  \<open>loaders\<close> gives what loading the file of a name or path does, \<open>path_exists\<close> is
  \<open>Path(f).exists()\<close>. The result is \<open>Inl\<close> for the exception that leaves the function.
\<close>

definition changed_strategy_files :: "string \<Rightarrow> string list" where
  "changed_strategy_files out =
     filter (\<lambda>f. endswith f ''.py'' \<and> contains ''contributed'' f)
       (py_split [CHR 0x0A] (str_strip out))"

definition validate_files :: "(string \<Rightarrow> loader) \<Rightarrow> string list \<Rightarrow> bool" where
  "validate_files loaders strategy_files =
     (if strategy_files = [] then True
      else fold (\<lambda>n all_valid.
              if vr_valid (validate_strategy_file n (loaders n)) then all_valid else False)
            strategy_files True)"

definition validate_all_strategies :: "(string \<Rightarrow> loader) \<Rightarrow> git_result \<Rightarrow> (string \<Rightarrow> bool)
    \<Rightarrow> string list \<Rightarrow> bool \<Rightarrow> string + bool" where
  "validate_all_strategies loaders git path_exists names pr_mode =
     (if pr_mode
      then (case git of
              GitRaised e \<Rightarrow> Inl e
            | GitFailed \<Rightarrow> Inr (validate_files loaders (candidate_files names))
            | GitStdout out \<Rightarrow>
                (let changed_files = changed_strategy_files out
                 in if changed_files = [] then Inr True
                    else Inr (validate_files loaders (filter path_exists changed_files))))
      else Inr (validate_files loaders (candidate_files names)))"

text \<open>
  The exit status of the validation process. An exception that leaves the function ends
  the process with a traceback and status 1.
\<close>

definition validation_exit :: "string + bool \<Rightarrow> int" where
  "validation_exit r = (case r of Inl e \<Rightarrow> 1 | Inr ok \<Rightarrow> exit_code ok)"

text \<open>
  What the metadata checks ask of a class: \<open>get_defaults\<close> exists and returns a
  dictionary in which each required field is present, is truthy, and has a \<open>strip()\<close>
  whose result is not the empty string.
\<close>

definition field_ok :: "(string \<times> pyval) list \<Rightarrow> string \<Rightarrow> bool" where
  "field_ok d f =
     (case map_of d f of
        None \<Rightarrow> False
      | Some v \<Rightarrow> truthy v \<and> (case py_strip v of Raises e \<Rightarrow> False | Returns s \<Rightarrow> s \<noteq> PStr []))"

definition metadata_ok :: "pyclass \<Rightarrow> bool" where
  "metadata_ok c =
     (has_get_defaults c \<and>
      (case get_defaults c of
         Returns (PDict d) \<Rightarrow> field_ok d ''contributor_name'' \<and> field_ok d ''strategy_description''
       | _ \<Rightarrow> False))"

text \<open>The docstring check does not raise: \<open>__doc__\<close> is falsy, a string or bytes.\<close>

definition doc_readable :: "pyclass \<Rightarrow> bool" where
  "doc_readable c =
     (case cls_doc c of
        PStr d \<Rightarrow> True
      | PBytes d \<Rightarrow> True
      | v \<Rightarrow> \<not> truthy v)"

text \<open>
  A report that is invalid and carries a given error; a report without the warning of
  the signature check.
\<close>

definition has_error :: "val_error \<Rightarrow> validation_report \<Rightarrow> bool" where
  "has_error e r = (\<not> vr_valid r \<and> e \<in> set (vr_errors r))"

definition no_signature_warning :: "validation_report \<Rightarrow> bool" where
  "no_signature_warning r = (PlaceBetSignature \<notin> set (vr_warnings r))"

section \<open>Strategy contract: the base class\<close>

text \<open>
  An instance of \<open>CommunityStrategy\<close>: the merged configuration, the four attributes
  the constructor extracts, and the state of the subclass, absent until
  \<open>_initialize_state\<close> has set it. A class gives what \<open>get_defaults()\<close> does and its
  \<open>_initialize_state\<close>, which may change the instance and may raise.
\<close>

record 's strategy_instance =
  config :: "string \<rightharpoonup> pyval"
  contributor_name :: pyval
  strategy_description :: pyval
  bankroll :: pyval
  base_bet :: pyval
  state :: "'s option"

record 's strategy_class =
  cls_get_defaults :: "pyval outcome"
  initialize_state :: "'s strategy_instance \<Rightarrow> 's strategy_instance outcome"

datatype init_error =
    GetDefaultsRaised string
  | NotAMapping
  | KeyError string
  | InitializeStateRaised string

text \<open>\<open>d.get(key, default)\<close>.\<close>

definition dict_get :: "(string \<rightharpoonup> pyval) \<Rightarrow> string \<Rightarrow> pyval \<Rightarrow> pyval" where
  "dict_get d k dflt = (case d k of None \<Rightarrow> dflt | Some v \<Rightarrow> v)"

text \<open>
  \<open>CommunityStrategy.__init__(self, **kwargs)\<close>. \<open>{**defaults, **kwargs}\<close> is the map
  \<open>map_of defaults ++ kwargs\<close>; \<open>self.config['contributor_name']\<close> raises KeyError on a
  missing key.
\<close>

definition strategy_init :: "'s strategy_class \<Rightarrow> (string \<rightharpoonup> pyval)
    \<Rightarrow> init_error + 's strategy_instance" where
  "strategy_init cls kwargs =
     (case cls_get_defaults cls of
        Raises e \<Rightarrow> Inl (GetDefaultsRaised e)
      | Returns (PDict defaults) \<Rightarrow>
          (let cfg = map_of defaults ++ kwargs
           in case cfg ''contributor_name'' of
                None \<Rightarrow> Inl (KeyError ''contributor_name'')
              | Some cn \<Rightarrow>
                  (case cfg ''strategy_description'' of
                     None \<Rightarrow> Inl (KeyError ''strategy_description'')
                   | Some sd \<Rightarrow>
                       (case initialize_state cls
                               \<lparr>config = cfg, contributor_name = cn,
                                strategy_description = sd,
                                bankroll = dict_get cfg ''bankroll'' (PInt 1000),
                                base_bet = dict_get cfg ''base_bet'' (PInt 10),
                                state = None\<rparr> of
                          Raises e \<Rightarrow> Inl (InitializeStateRaised e)
                        | Returns inst \<Rightarrow> Inr inst)))
      | Returns v \<Rightarrow> Inl NotAMapping)"

section \<open>Simulation benchmark harness\<close>

record game_state =
  history :: "int list"
  last_result :: "int option"
  current_balance :: pyval
  total_bet :: int
  spin_count :: int

definition mock_game_state :: game_state where
  "mock_game_state =
     \<lparr>history = [], last_result = None, current_balance = PInt 1000, total_bet = 0,
      spin_count = 0\<rparr>"

definition add_result :: "int \<Rightarrow> game_state \<Rightarrow> game_state" where
  "add_result number g =
     g\<lparr>history := history g @ [number], last_result := Some number,
       spin_count := spin_count g + 1\<rparr>"

text \<open>
  A call into the code of a strategy returns a value, raises an exception of class
  \<open>Exception\<close>, kept as its message, or raises \<open>SystemExit\<close> with an integer code,
  which is not an \<open>Exception\<close> and passes every handler of the harness.
\<close>

datatype 'a call = Returned 'a | Raised string | Exited int

text \<open>
  What \<open>place_bet\<close> can reach and change while it runs: the attributes of the strategy,
  the game state object it is handed, and the generator of the \<open>random\<close> module, which
  is one per process.
\<close>

record ('s, 'r) world =
  strategy_state :: 's
  game :: game_state
  generator :: 'r

text \<open>
  The strategy class the harness finds in a module: what \<open>strategy_class()\<close> does, what
  \<open>strategy.get_defaults()\<close> does (absent when the instance has no such attribute), and
  \<open>place_bet\<close>. Loading gives no specification, raises, exits, or gives the module with
  the first entry of \<open>vars(module)\<close> whose name ends in \<open>Strategy\<close> and that has
  \<open>place_bet\<close>, if there is one.
\<close>

record ('s, 'r) bench_class =
  instantiate :: "'s call"
  defaults_call :: "pyval call option"
  place_bet :: "('s, 'r) world \<Rightarrow> pyval call \<times> ('s, 'r) world"

datatype ('s, 'r) bench_module =
    NoSpec
  | ExecRaised string
  | ExecExited int
  | Module "('s, 'r) bench_class option"

text \<open>
  The clock, the random module and the rest of the process. \<open>elapsed_at i\<close> is
  \<open>time.time() - start_time\<close> at the check that opens round \<open>i\<close>, \<open>elapsed_end\<close> the
  same after the loop. \<open>seed n\<close> is the generator after \<open>random.seed(n)\<close>, and
  \<open>randint g\<close> is the value of \<open>random.randint(0, 36)\<close> on generator \<open>g\<close> with the
  generator it leaves. \<open>others\<close> is what the other worker threads do to the generator:
  at point \<open>2 * i\<close> before the decision of round \<open>i\<close>, at point \<open>2 * i + 1\<close> before its
  draw.
\<close>

record 'r bench_env =
  elapsed_at :: "nat \<Rightarrow> rat"
  elapsed_end :: rat
  seed :: "int \<Rightarrow> 'r"
  randint :: "'r \<Rightarrow> int \<times> 'r"
  others :: "nat \<Rightarrow> 'r \<Rightarrow> 'r"

text \<open>
  \<open>Could not load module\<close>, \<open>No strategy class found\<close>, \<open>Timeout after ...s\<close>,
  \<open>Too many errors during simulation: e\<close>, and \<open>str(e)\<close> of the outer handler.
\<close>

datatype bench_error =
    CouldNotLoadModule
  | NoStrategyClassFound
  | Timeout int
  | TooManyErrors string
  | BenchRaised string

text \<open>
  The objects and local variables of the simulation; \<open>min_bet = None\<close> is
  \<open>float('inf')\<close>, and \<open>sim_error\<close> is \<open>results["error"]\<close>.
\<close>

record ('s, 'r) sim =
  world :: "('s, 'r) world"
  total_bet_amount :: rat
  max_bet :: rat
  min_bet :: "rat option"
  bet_count :: nat
  sim_errors :: nat
  sim_error :: "bench_error option"

fun num_value :: "pyval \<Rightarrow> rat option" where
  "num_value (PInt i) = Some (of_int i)"
| "num_value (PFloat r) = Some r"
| "num_value (PBool b) = Some (if b then 1 else 0)"
| "num_value v = None"

text \<open>\<open>sum(values)\<close>: adding a value that is not a number to the running total raises.\<close>

fun py_sum :: "pyval list \<Rightarrow> rat \<Rightarrow> rat outcome" where
  "py_sum [] acc = Returns acc"
| "py_sum (v # vs) acc =
     (case num_value v of
        None \<Rightarrow> Raises ''TypeError: unsupported operand type(s) for +''
      | Some x \<Rightarrow> py_sum vs (acc + x))"

definition bet_amount_of :: "pyval \<Rightarrow> rat outcome" where
  "bet_amount_of bet_info =
     (case bet_info of
        PDict kvs \<Rightarrow> if kvs \<noteq> [] then py_sum (map snd kvs) 0 else Returns 0
      | PInt i \<Rightarrow> Returns (of_int i)
      | PFloat r \<Rightarrow> Returns r
      | PBool b \<Rightarrow> Returns (if b then 1 else 0)
      | _ \<Rightarrow> Returns 0)"

text \<open>
  A round ends the loop, lets it go on, or is left by a \<open>SystemExit\<close> that leaves the
  function.
\<close>

datatype 'a loop_step = Break 'a | Continue 'a | Escape int

text \<open>The handler inside the loop.\<close>

definition on_exception :: "string \<Rightarrow> ('s, 'r) sim \<Rightarrow> ('s, 'r) sim loop_step" where
  "on_exception e s =
     (let s1 = s\<lparr>sim_errors := sim_errors s + 1\<rparr>
      in if sim_errors s1 > 10 then Break (s1\<lparr>sim_error := Some (TooManyErrors e)\<rparr>)
         else Continue s1)"

definition count_bet :: "rat \<Rightarrow> ('s, 'r) sim \<Rightarrow> ('s, 'r) sim" where
  "count_bet bet_amount s =
     (if bet_amount > 0
      then s\<lparr>total_bet_amount := total_bet_amount s + bet_amount,
             max_bet := max (max_bet s) bet_amount,
             min_bet := Some (case min_bet s of None \<Rightarrow> bet_amount | Some m \<Rightarrow> min m bet_amount),
             bet_count := bet_count s + 1\<rparr>
      else s)"

text \<open>The world as \<open>place_bet\<close> finds it in round \<open>spin\<close>.\<close>

definition before_call :: "'r bench_env \<Rightarrow> nat \<Rightarrow> ('s, 'r) world \<Rightarrow> ('s, 'r) world" where
  "before_call env spin w = w\<lparr>generator := others env (2 * spin) (generator w)\<rparr>"

text \<open>\<open>result = random.randint(0, 36)\<close> and \<open>game_state.add_result(result)\<close>.\<close>

definition spin_wheel :: "'r bench_env \<Rightarrow> nat \<Rightarrow> ('s, 'r) sim \<Rightarrow> ('s, 'r) sim" where
  "spin_wheel env spin s =
     (case randint env (others env (2 * spin + 1) (generator (world s))) of
        (result, g) \<Rightarrow>
          s\<lparr>world := (world s)\<lparr>game := add_result result (game (world s)), generator := g\<rparr>\<rparr>)"

text \<open>The body of the loop for round \<open>spin\<close>.\<close>

definition play_round :: "'r bench_env \<Rightarrow> ('s, 'r) bench_class \<Rightarrow> int \<Rightarrow> nat \<Rightarrow> ('s, 'r) sim
    \<Rightarrow> ('s, 'r) sim loop_step" where
  "play_round env c timeout spin s =
     (if elapsed_at env spin > of_int timeout
      then Break (s\<lparr>sim_error := Some (Timeout timeout)\<rparr>)
      else (case place_bet c (before_call env spin (world s)) of
              (r, w) \<Rightarrow>
                (let s1 = s\<lparr>world := w\<rparr>
                 in case r of
                      Exited code \<Rightarrow> Escape code
                    | Raised e \<Rightarrow> on_exception e s1
                    | Returned bet_info \<Rightarrow>
                        if bet_info = PNone then Continue s1
                        else (case bet_amount_of bet_info of
                                Raises e \<Rightarrow> on_exception e s1
                              | Returns bet_amount \<Rightarrow>
                                  Continue (spin_wheel env spin (count_bet bet_amount s1))))))"

text \<open>
  \<open>for spin in range(num_spins)\<close>, with the rounds still to run and the round index.
  \<open>Inl\<close> is the code of a \<open>SystemExit\<close> that leaves the function.
\<close>

fun sim_loop :: "'r bench_env \<Rightarrow> ('s, 'r) bench_class \<Rightarrow> int \<Rightarrow> nat \<Rightarrow> nat \<Rightarrow> ('s, 'r) sim
    \<Rightarrow> int + ('s, 'r) sim" where
  "sim_loop env c timeout 0 spin s = Inr s"
| "sim_loop env c timeout (Suc k) spin s =
     (case play_round env c timeout spin s of
        Break s' \<Rightarrow> Inr s'
      | Continue s' \<Rightarrow> sim_loop env c timeout k (Suc spin) s'
      | Escape code \<Rightarrow> Inl code)"

record metrics =
  spins_completed :: int
  total_bets_placed :: nat
  m_total_bet_amount :: rat
  average_bet :: rat
  m_max_bet :: rat
  m_min_bet :: rat
  bet_variance :: rat
  errors_encountered :: nat
  execution_time_ms :: rat
  bets_per_second :: rat

record bench_result =
  br_file :: string
  success :: bool
  error :: "bench_error option"
  br_metrics :: "metrics option"
  execution_time :: rat

text \<open>
  The code after the loop: the derived metrics and \<open>results.update\<close>, which sets
  \<open>success\<close>, the time and the metrics. \<open>results["error"]\<close> is what the loop left there.
\<close>

definition finish :: "'r bench_env \<Rightarrow> bench_result \<Rightarrow> ('s, 'r) sim \<Rightarrow> bench_result" where
  "finish env results s =
     (let t = elapsed_end env;
          avg_bet = (if bet_count s > 0 then total_bet_amount s / of_nat (bet_count s) else 0);
          variance = (if bet_count s > 0
                      then (case min_bet s of None \<Rightarrow> 0 | Some m \<Rightarrow> max_bet s - m) else 0);
          min_bet1 = (if bet_count s > 0 then min_bet s else Some 0)
      in results\<lparr>success := True,
                 error := sim_error s,
                 execution_time := t,
                 br_metrics := Some
                   \<lparr>spins_completed = spin_count (game (world s)),
                    total_bets_placed = bet_count s,
                    m_total_bet_amount = total_bet_amount s,
                    average_bet = avg_bet,
                    m_max_bet = max_bet s,
                    m_min_bet = (case min_bet1 of None \<Rightarrow> 0 | Some m \<Rightarrow> m),
                    bet_variance = variance,
                    errors_encountered = sim_errors s,
                    execution_time_ms = t * 1000,
                    bets_per_second = (if t > 0 then of_nat (bet_count s) / t else 0)\<rparr>\<rparr>)"

text \<open>
  The objects and counters before the first round: the game state with the declared
  bankroll as balance, and the generator as \<open>random.seed(42)\<close> leaves it.
\<close>

definition initial_sim :: "'r bench_env \<Rightarrow> 's \<Rightarrow> (string \<times> pyval) list \<Rightarrow> ('s, 'r) sim" where
  "initial_sim env strategy defaults =
     \<lparr>world =
        \<lparr>strategy_state = strategy,
         game = mock_game_state
                  \<lparr>current_balance := dict_get (map_of defaults) ''bankroll'' (PInt 1000)\<rparr>,
         generator = seed env 42\<rparr>,
      total_bet_amount = 0, max_bet = 0, min_bet = None,
      bet_count = 0, sim_errors = 0, sim_error = None\<rparr>"

definition initial_result :: "string \<Rightarrow> bench_result" where
  "initial_result name =
     \<lparr>br_file = name, success = False, error = None, br_metrics = None, execution_time = 0\<rparr>"

text \<open>The handler of the outer \<open>try\<close>.\<close>

definition bench_raised :: "'r bench_env \<Rightarrow> string \<Rightarrow> bench_result \<Rightarrow> bench_result" where
  "bench_raised env e results =
     results\<lparr>error := Some (BenchRaised e), execution_time := elapsed_end env\<rparr>"

text \<open>
  \<open>strategy.get_defaults() if hasattr(strategy, "get_defaults") else {}\<close>, followed by
  \<open>defaults.get("bankroll", 1000)\<close>, which raises on a value without \<open>get\<close>.
\<close>

definition read_defaults :: "('s, 'r) bench_class \<Rightarrow> (string \<times> pyval) list call" where
  "read_defaults c =
     (case defaults_call c of
        None \<Rightarrow> Returned []
      | Some (Returned (PDict defaults)) \<Rightarrow> Returned defaults
      | Some (Returned v) \<Rightarrow> Raised ''AttributeError: object has no attribute get''
      | Some (Raised e) \<Rightarrow> Raised e
      | Some (Exited code) \<Rightarrow> Exited code)"



definition run_strategy_benchmark :: "'r bench_env \<Rightarrow> ('s, 'r) bench_module \<Rightarrow> string \<Rightarrow> int \<Rightarrow> int
    \<Rightarrow> int + bench_result" where
  "run_strategy_benchmark env m name num_spins timeout =
     (case m of
        NoSpec \<Rightarrow> Inr ((initial_result name)\<lparr>error := Some CouldNotLoadModule\<rparr>)
      | ExecRaised e \<Rightarrow> Inr (bench_raised env e (initial_result name))
      | ExecExited code \<Rightarrow> Inl code
      | Module None \<Rightarrow> Inr ((initial_result name)\<lparr>error := Some NoStrategyClassFound\<rparr>)
      | Module (Some c) \<Rightarrow>
          (case instantiate c of
             Raised e \<Rightarrow> Inr (bench_raised env e (initial_result name))
           | Exited code \<Rightarrow> Inl code
           | Returned strategy \<Rightarrow>
               (case read_defaults c of
                  Raised e \<Rightarrow> Inr (bench_raised env e (initial_result name))
                | Exited code \<Rightarrow> Inl code
                | Returned defaults \<Rightarrow>
                    (case sim_loop env c timeout (nat num_spins) 0
                            (initial_sim env strategy defaults) of
                       Inl code \<Rightarrow> Inl code
                     | Inr s \<Rightarrow> Inr (finish env (initial_result name) s)))))"

text \<open>
  The record of a run: for every call of \<open>place_bet\<close> the world it found, what it
  returned or raised, and the world it left.
\<close>

fun calls :: "'r bench_env \<Rightarrow> ('s, 'r) bench_class \<Rightarrow> int \<Rightarrow> nat \<Rightarrow> nat \<Rightarrow> ('s, 'r) sim
    \<Rightarrow> (('s, 'r) world \<times> pyval call \<times> ('s, 'r) world) list" where
  "calls env c timeout 0 spin s = []"
| "calls env c timeout (Suc k) spin s =
     (if elapsed_at env spin > of_int timeout then []
      else (before_call env spin (world s), place_bet c (before_call env spin (world s))) #
           (case play_round env c timeout spin s of
              Continue s' \<Rightarrow> calls env c timeout k (Suc spin) s'
            | Break s' \<Rightarrow> []
            | Escape code \<Rightarrow> []))"


text \<open>
  What a call amounted to: a decision with an amount, for which the wheel is spun; the
  decision \<open>None\<close>; an exception, raised by \<open>place_bet\<close> or by summing the amounts.
\<close>

definition completed :: "pyval call \<Rightarrow> bool" where
  "completed r =
     (case r of
        Returned v \<Rightarrow>
          v \<noteq> PNone \<and> (case bet_amount_of v of Returns a \<Rightarrow> True | Raises e \<Rightarrow> False)
      | Raised e \<Rightarrow> False
      | Exited code \<Rightarrow> False)"

definition skipped :: "pyval call \<Rightarrow> bool" where
  "skipped r = (r = Returned PNone)"

definition failed_call :: "pyval call \<Rightarrow> bool" where
  "failed_call r =
     (case r of
        Returned v \<Rightarrow>
          v \<noteq> PNone \<and> (case bet_amount_of v of Returns a \<Rightarrow> False | Raises e \<Rightarrow> True)
      | Raised e \<Rightarrow> True
      | Exited code \<Rightarrow> False)"







text \<open>
  What a round that lets the loop go on has done: it kept the error field, and it
  skipped, counted an error, or drew a value and added it to the game state.
\<close>

definition round_effect :: "'r bench_env \<Rightarrow> nat \<Rightarrow> pyval call \<Rightarrow> ('s, 'r) world
    \<Rightarrow> ('s, 'r) sim \<Rightarrow> ('s, 'r) sim \<Rightarrow> bool" where
  "round_effect env i r w1 s s1 =
     (sim_error s1 = sim_error s \<and>
      (if completed r
       then world s1 =
              w1\<lparr>game := add_result (fst (randint env (others env (2 * i + 1) (generator w1))))
                           (game w1),
                 generator := snd (randint env (others env (2 * i + 1) (generator w1)))\<rparr> \<and>
            sim_errors s1 = sim_errors s
       else world s1 = w1 \<and>
            sim_errors s1 = sim_errors s + (if failed_call r then 1 else 0)) \<and>
      (completed r \<or> failed_call r \<or> skipped r))"

section \<open>Aggregator\<close>

text \<open>
  What \<open>future.result(timeout=timeout + 5)\<close> gives for a file: the result of its
  benchmark, a TimeoutError, another exception of class \<open>Exception\<close>, or the
  \<open>SystemExit\<close> that left the benchmark, raised again in the calling thread.
\<close>

datatype future = Done bench_result | FutureTimeout | FutureRaised string | FutureExited int

text \<open>The future of a benchmark that ends within the deadline or does not.\<close>

definition future_of :: "bool \<Rightarrow> int + bench_result \<Rightarrow> future" where
  "future_of in_time run =
     (if \<not> in_time then FutureTimeout
      else (case run of Inl code \<Rightarrow> FutureExited code | Inr result \<Rightarrow> Done result))"

text \<open>
  The loop over the futures, with \<open>all_results\<close> and \<open>failed_strategies\<close>. The handlers
  catch TimeoutError and \<open>Exception\<close>; a \<open>SystemExit\<close> leaves the function, \<open>Inl\<close> with
  its code.
\<close>

fun collect :: "(string \<Rightarrow> future) \<Rightarrow> string list \<Rightarrow> bench_result list \<times> string list
    \<Rightarrow> int + bench_result list \<times> string list" where
  "collect futures [] acc = Inr acc"
| "collect futures (strategy_file # rest) (all_results, failed_list) =
     (case futures strategy_file of
        Done result \<Rightarrow>
          collect futures rest
            (all_results @ [result],
             if success result then failed_list else failed_list @ [br_file result])
      | FutureTimeout \<Rightarrow> collect futures rest (all_results, failed_list @ [strategy_file])
      | FutureRaised e \<Rightarrow> collect futures rest (all_results, failed_list @ [strategy_file])
      | FutureExited code \<Rightarrow> Inl code)"

record summary =
  total_strategies :: nat
  successful :: nat
  failed :: nat
  failed_strategies :: "string list"

text \<open>The summary written to \<open>benchmark_results.json\<close>.\<close>

definition summary_of :: "string list \<Rightarrow> bench_result list \<Rightarrow> string list \<Rightarrow> summary" where
  "summary_of strategy_files all_results failed_list =
     \<lparr>total_strategies = length strategy_files,
      successful = length (filter success all_results),
      failed = length failed_list,
      failed_strategies = failed_list\<rparr>"

definition benchmark_summary :: "(string \<Rightarrow> future) \<Rightarrow> string list \<Rightarrow> int + summary" where
  "benchmark_summary futures strategy_files =
     (case collect futures strategy_files ([], []) of
        Inl code \<Rightarrow> Inl code
      | Inr (all_results, failed_list) \<Rightarrow>
          Inr (summary_of strategy_files all_results failed_list))"

text \<open>
  An exception that leaves \<open>benchmark_all_strategies\<close>: the \<open>SystemExit\<close> of a
  benchmark, or an exception of writing the report, which no handler catches.
\<close>

datatype escape = SystemExit int | Uncaught string

text \<open>
  The decision. \<open>write_report\<close> is \<open>open\<close> and \<open>json.dump\<close> applied to the summary and
  the results; it comes before the decision and raises when the file cannot be opened or a metric
  is not a value that JSON has. The success rate is compared
  as an exact fraction; the quotient of two file counts and the literal 0.8 round to the
  same floating-point order for any number of files below \<open>2 ^ 50\<close>. Console output is
  not modelled.
\<close>

definition benchmark_all_strategies :: "(string \<Rightarrow> future)
    \<Rightarrow> (summary \<Rightarrow> bench_result list \<Rightarrow> unit outcome) \<Rightarrow> string list \<Rightarrow> escape + bool" where
  "benchmark_all_strategies futures write_report names =
     (let strategy_files = candidate_files names
      in if strategy_files = [] then Inr True
         else (case collect futures strategy_files ([], []) of
                 Inl code \<Rightarrow> Inl (SystemExit code)
               | Inr (all_results, failed_list) \<Rightarrow>
                   (case write_report (summary_of strategy_files all_results failed_list)
                           all_results of
                      Raises e \<Rightarrow> Inl (Uncaught e)
                    | Returns u \<Rightarrow>
                        (let success_rate =
                               (of_nat (length (filter success all_results)) /
                                of_nat (length strategy_files) :: rat)
                         in Inr (if success_rate < 8 / 10 then False
                                 else if failed_list \<noteq> [] then length failed_list \<le> 2
                                 else True)))))"

text \<open>
  The exit status of the process: \<open>sys.exit(0 if success else 1)\<close>, the code of a
  \<open>SystemExit\<close> as the operating system keeps it, or 1 for a traceback.
\<close>

definition exit_status :: "escape + bool \<Rightarrow> int" where
  "exit_status r =
     (case r of
        Inr ok \<Rightarrow> if ok then 0 else 1
      | Inl (SystemExit code) \<Rightarrow> code mod 256
      | Inl (Uncaught e) \<Rightarrow> 1)"

text \<open>
  A file counts as successful when its benchmark came back with \<open>success\<close> set, and
  as failed otherwise.
\<close>

definition succeeded :: "future \<Rightarrow> bool" where
  "succeeded fu = (case fu of Done result \<Rightarrow> success result | _ \<Rightarrow> False)"

definition successes :: "(string \<Rightarrow> future) \<Rightarrow> string list \<Rightarrow> nat" where
  "successes futures files = length (filter (\<lambda>f. succeeded (futures f)) files)"

definition failures :: "(string \<Rightarrow> future) \<Rightarrow> string list \<Rightarrow> nat" where
  "failures futures files = length (filter (\<lambda>f. \<not> succeeded (futures f)) files)"

definition exits :: "future \<Rightarrow> bool" where
  "exits fu = (case fu of FutureExited code \<Rightarrow> True | _ \<Rightarrow> False)"




section \<open>Concrete inputs\<close>

text \<open>
  The library as it answers for a file that consists of one import statement: the tree
  is the module, the statement and its alias, and no pattern matches. Three such files:
  \<open>import socket\<close>, \<open>import os.path\<close> and \<open>from urllib.request import urlopen\<close>.
\<close>

definition one_statement :: "string \<Rightarrow> ast_node \<Rightarrow> pylib" where
  "one_statement text stmt =
     \<lparr>ast_parse = (\<lambda>c. if c = text then Tree [OtherNode, stmt, OtherNode]
                         else SyntaxError ''invalid syntax''),
      re_search = (\<lambda>p i c. False)\<rparr>"

definition file_of :: "string \<Rightarrow> source_file" where
  "file_of text = \<lparr>stat_size = Returns (length text), read_text = Returns text\<rparr>"

definition socket_lib :: pylib where
  "socket_lib = one_statement ''import socket'' (Import [''socket''])"

definition socket_file :: source_file where
  "socket_file = file_of ''import socket''"

definition os_path_lib :: pylib where
  "os_path_lib = one_statement ''import os.path'' (Import [''os.path''])"

definition os_path_file :: source_file where
  "os_path_file = file_of ''import os.path''"

definition urllib_lib :: pylib where
  "urllib_lib =
     one_statement ''from urllib.request import urlopen'' (ImportFrom (Some ''urllib.request''))"

definition urllib_file :: source_file where
  "urllib_file = file_of ''from urllib.request import urlopen''"

text \<open>
  A file of 102401 bytes and a file of 50 bytes, with a library that parses every text
  to a bare module and finds the two method definitions and nothing else.
\<close>

definition big_file :: source_file where
  "big_file = \<lparr>stat_size = Returns 102401, read_text = Returns (replicate 102401 (CHR ''#''))\<rparr>"

definition small_file :: source_file where
  "small_file = \<lparr>stat_size = Returns 50, read_text = Returns (replicate 50 (CHR ''#''))\<rparr>"

definition plain_lib :: pylib where
  "plain_lib =
     \<lparr>ast_parse = (\<lambda>c. Tree [OtherNode]),
      re_search = (\<lambda>p i c. p \<in> set required_patterns)\<rparr>"

text \<open>
  A strategy class with the metadata of the example strategy, whose
  \<open>_initialize_state\<close> sets a counter to zero.
\<close>

definition example_class :: "nat strategy_class" where
  "example_class =
     \<lparr>cls_get_defaults = Returns (PDict
        [(''contributor_name'', PStr ''YSS Team''),
         (''strategy_description'', PStr ''Simple Martingale progression on red''),
         (''bankroll'', PInt 1000)]),
      initialize_state = (\<lambda>i. Returns (i\<lparr>state := Some 0\<rparr>))\<rparr>"

text \<open>
  Strategy classes that differ from the example strategy in the value of
  \<open>contributor_name\<close> and in the parameters of \<open>place_bet\<close>, each alone in its module:
  one with the bytes value \<open>b"YSS Team"\<close>, one whose \<open>place_bet\<close> takes the receiver
  only, one whose \<open>place_bet\<close> takes a second explicit parameter, and one that sets
  \<open>__doc__ = 123\<close> in the class body.
\<close>

definition example_doc :: string where
  "example_doc = ''Simple example strategy using basic progression on red bets.''"

definition strategy_with :: "string \<Rightarrow> pyval \<Rightarrow> string list \<Rightarrow> pyclass" where
  "strategy_with cname name_value params =
     \<lparr>cls_name = cname, has_place_bet = True, has_get_defaults = True,
      get_defaults = Returns (PDict
        [(''contributor_name'', name_value),
         (''strategy_description'', PStr ''Simple Martingale progression on red''),
         (''bankroll'', PInt 1000), (''base_bet'', PInt 10), (''target_profit'', PInt 100)]),
      cls_doc = PStr example_doc,
      place_bet_params = Returns params\<rparr>"

definition loader_of :: "pyclass \<Rightarrow> loader" where
  "loader_of c =
     \<lparr>import_module = Imported [(cls_name c, c)], import_base = Returns (),
      spec_available = True, exec_module = Returns [(cls_name c, c)]\<rparr>"

definition bytes_strategy :: pyclass where
  "bytes_strategy = strategy_with ''BytesStrategy'' (PBytes ''YSS Team'') [''self'', ''game_state'']"

definition no_arg_strategy :: pyclass where
  "no_arg_strategy = strategy_with ''NoArgStrategy'' (PStr ''YSS Team'') [''self'']"

definition three_arg_strategy :: pyclass where
  "three_arg_strategy =
     strategy_with ''ThreeArgStrategy'' (PStr ''YSS Team'') [''self'', ''game_state'', ''limit'']"

definition numbered_doc_strategy :: pyclass where
  "numbered_doc_strategy =
     (strategy_with ''NumberedDocStrategy'' (PStr ''YSS Team'') [''self''])\<lparr>cls_doc := PInt 123\<rparr>"

text \<open>
  For the harness: the defaults of the example strategy, and a process with no other
  thread at the generator. The state of its generator is the number of values drawn
  since \<open>random.seed(42)\<close>, the only seed the harness sets: the first twelve draws give
  the values that \<open>random.randint(0, 36)\<close> gives after that seed, and the draws after
  them give 0. One clock never passes the timeout, the other passes thirty seconds at
  the fourth round.
\<close>

definition example_defaults :: "(string \<times> pyval) list" where
  "example_defaults =
     [(''contributor_name'', PStr ''YSS Team''),
      (''strategy_description'', PStr ''Simple Martingale progression on red''),
      (''bankroll'', PInt 1000), (''base_bet'', PInt 10), (''target_profit'', PInt 100)]"

definition first_draws :: "int list" where
  "first_draws = [7, 1, 17, 15, 14, 8, 6, 34, 5, 27, 2, 1]"

definition next_draw :: "nat \<Rightarrow> int \<times> nat" where
  "next_draw k = (if k < length first_draws then first_draws ! k else 0, Suc k)"

definition seeded_env :: "nat bench_env" where
  "seeded_env =
     \<lparr>elapsed_at = (\<lambda>i. 0), elapsed_end = 1,
      seed = (\<lambda>n. 0),
      randint = next_draw,
      others = (\<lambda>k g. g)\<rparr>"

definition slow_env :: "nat bench_env" where
  "slow_env =
     \<lparr>elapsed_at = (\<lambda>i. if i < 3 then 1 else 31), elapsed_end = 31,
      seed = (\<lambda>n. 0),
      randint = next_draw,
      others = (\<lambda>k g. g)\<rparr>"

text \<open>
  Strategies: one that bets 10 on red in every round, one that returns \<open>None\<close> in
  every round, one that raises in every round, one that counts its calls and bets in
  the first, returns \<open>None\<close> in the second and raises from the third on, one that
  bets and adds five to the \<open>spin_count\<close> of the game state it is handed, and one whose
  \<open>place_bet\<close> calls \<open>sys.exit(0)\<close>.
\<close>

definition red_bet :: pyval where
  "red_bet = PDict [(''red'', PInt 10)]"

definition flat_bettor :: "(unit, nat) bench_class" where
  "flat_bettor =
     \<lparr>instantiate = Returned (), defaults_call = Some (Returned (PDict example_defaults)),
      place_bet = (\<lambda>w. (Returned (PDict [(''red'', PInt 10)]), w))\<rparr>"


definition always_raises :: "(unit, nat) bench_class" where
  "always_raises =
     \<lparr>instantiate = Returned (), defaults_call = Some (Returned (PDict example_defaults)),
      place_bet = (\<lambda>w. (Raised ''boom'', w))\<rparr>"


definition meddler :: "(unit, nat) bench_class" where
  "meddler =
     \<lparr>instantiate = Returned (), defaults_call = Some (Returned (PDict example_defaults)),
      place_bet = (\<lambda>w. (Returned red_bet,
                            w\<lparr>game := (game w)\<lparr>spin_count := spin_count (game w) + 5\<rparr>\<rparr>))\<rparr>"


text \<open>
  The benchmark of a file that holds the strategy betting on red, over three rounds,
  as its future gives it; a report that is always written; a directory of five strategy
  files of which the fifth has no strategy class; a directory of fifteen of which one
  runs into the deadline of its future, one has no strategy class and one cannot be
  loaded; and the module of the package file, whose only class is \<open>Path\<close>.
\<close>

definition flat_future :: "string \<Rightarrow> future" where
  "flat_future n =
     future_of True (run_strategy_benchmark seeded_env (Module (Some flat_bettor)) n 3 30)"

definition classless_future :: "string \<Rightarrow> future" where
  "classless_future n =
     future_of True
       (run_strategy_benchmark seeded_env (Module None :: (unit, nat) bench_module) n 3 30)"

definition unloadable_future :: "string \<Rightarrow> future" where
  "unloadable_future n =
     future_of True
       (run_strategy_benchmark seeded_env (NoSpec :: (unit, nat) bench_module) n 3 30)"

definition written :: "summary \<Rightarrow> bench_result list \<Rightarrow> unit outcome" where
  "written s rs = Returns ()"


definition four_of_five :: "string \<Rightarrow> future" where
  "four_of_five n = (if n = ''e.py'' then classless_future n else flat_future n)"



definition path_class :: pyclass where
  "path_class =
     \<lparr>cls_name = ''Path'', has_place_bet = False, has_get_defaults = False,
      get_defaults = Raises ''AttributeError'', cls_doc = PStr ''PurePath subclass'',
      place_bet_params = Raises ''AttributeError''\<rparr>"

definition package_loader :: loader where
  "package_loader =
     \<lparr>import_module = Imported [(''Path'', path_class)], import_base = Returns (),
      spec_available = True, exec_module = Returns [(''Path'', path_class)]\<rparr>"

section \<open>The static analyzer rejects deny-listed imports\<close>

lemma empty_not_forbidden: "[] \<notin> forbidden"
  by (simp add: forbidden_def)

lemma split_from_first:
  "hd (split_from ''.'' 0 acc s) = rev acc @ takeWhile (\<lambda>c. c \<noteq> CHR ''.'') s"
  by (induction s arbitrary: acc) simp_all

lemma top_level_first: "top_level n = takeWhile (\<lambda>c. c \<noteq> CHR ''.'') n"
  by (simp add: top_level_def py_split_def split_from_first)

lemma denied_top_level: "denied n = (top_level n \<in> forbidden)"
  by (simp add: denied_def top_level_first)

lemma forbidden_denied: "n \<in> forbidden \<Longrightarrow> denied n"
  by (auto simp: forbidden_def denied_def)

lemma not_denied_Nil: "\<not> denied []"
  by (simp add: denied_def empty_not_forbidden)

lemma record_import_forbidden:
  "forbidden_imports (record_import n r) = forbidden_imports r @ (if denied n then [n] else [])"
  by (simp add: record_import_def denied_top_level Let_def)

lemma record_import_valid:
  "ar_valid (record_import n r) = (ar_valid r \<and> \<not> denied n)"
  by (simp add: record_import_def denied_top_level Let_def)

lemma fold_record_import_forbidden:
  "forbidden_imports (fold record_import ms r) = forbidden_imports r @ filter denied ms"
  by (induction ms arbitrary: r) (simp_all add: record_import_forbidden)

lemma fold_record_import_valid:
  "ar_valid (fold record_import ms r) = (ar_valid r \<and> filter denied ms = [])"
  by (induction ms arbitrary: r) (auto simp: record_import_valid)

lemma fold_visit_node_forbidden:
  "forbidden_imports (fold visit_node xs r) =
     forbidden_imports r @ filter denied (imported_names xs)"
proof (induction xs arbitrary: r rule: imported_names.induct)
  case (3 m ns)
  then show ?case by (simp add: record_import_forbidden not_denied_Nil)
qed (simp_all add: fold_record_import_forbidden)

lemma fold_visit_node_valid:
  "ar_valid (fold visit_node xs r) = (ar_valid r \<and> filter denied (imported_names xs) = [])"
proof (induction xs arbitrary: r rule: imported_names.induct)
  case (3 m ns)
  then show ?case by (auto simp: record_import_valid not_denied_Nil)
qed (auto simp: fold_record_import_valid)

lemma check_calls_forbidden:
  "forbidden_imports (check_calls xs r) = forbidden_imports r @ dangerous_calls xs"
  by (simp add: check_calls_def Let_def)

lemma check_calls_invalid: "\<not> ar_valid r \<Longrightarrow> \<not> ar_valid (check_calls xs r)"
  by (simp add: check_calls_def Let_def)

lemma scan_pattern_forbidden:
  "forbidden_imports (fold (scan_pattern lib c) ps r) = forbidden_imports r"
  by (induction ps arbitrary: r) (simp_all add: scan_pattern_def)

lemma scan_pattern_invalid:
  "\<not> ar_valid r \<Longrightarrow> \<not> ar_valid (fold (scan_pattern lib c) ps r)"
  by (induction ps arbitrary: r) (simp_all add: scan_pattern_def)

lemma analyze_imports_forbidden:
  assumes "read_text f = Returns content" and "ast_parse lib content = Tree nodes"
  shows "forbidden_imports (analyze_imports lib name f) =
           filter denied (imported_names nodes) @ dangerous_calls nodes"
  using assms
  by (simp add: analyze_imports_def scan_pattern_forbidden check_calls_forbidden
      fold_visit_node_forbidden)

lemma analyze_imports_invalid:
  assumes "read_text f = Returns content" and "ast_parse lib content = Tree nodes"
    and "n \<in> set (imported_names nodes)" and "denied n"
  shows "\<not> ar_valid (analyze_imports lib name f)"
proof -
  from assms(3,4) have "filter denied (imported_names nodes) \<noteq> []"
    by (auto simp: filter_empty_conv)
  then show ?thesis
    using assms(1,2)
    by (simp add: analyze_imports_def scan_pattern_invalid check_calls_invalid
        fold_visit_node_valid)
qed

lemma denied_examples:
  "denied ''socket''" "denied ''os.path''" "denied ''urllib.request''" "\<not> denied ''os_helpers''"
  by (simp_all add: denied_def forbidden_def)

text \<open>
  The file \<open>import os.path\<close> imports the deny-listed module \<open>os\<close>. Its report is
  invalid, and the forbidden imports hold the name as the statement writes it; the name
  \<open>os\<close> of the deny-listed module is not among them.
\<close>

theorem dotted_import_recorded_as_written:
  "read_text os_path_file = Returns ''import os.path'' \<and>
   ast_parse os_path_lib ''import os.path'' = Tree [OtherNode, Import [''os.path''], OtherNode] \<and>
   ''os'' \<in> forbidden \<and>
   \<not> ar_valid (analyze_imports os_path_lib ''s.py'' os_path_file) \<and>
   forbidden_imports (analyze_imports os_path_lib ''s.py'' os_path_file) = [''os.path''] \<and>
   ''os'' \<notin> set (forbidden_imports (analyze_imports os_path_lib ''s.py'' os_path_file))"
proof -
  have r: "read_text os_path_file = Returns ''import os.path''"
    by (simp add: os_path_file_def file_of_def)
  have t: "ast_parse os_path_lib ''import os.path'' =
             Tree [OtherNode, Import [''os.path''], OtherNode]"
    by (simp add: os_path_lib_def one_statement_def)
  have f: "forbidden_imports (analyze_imports os_path_lib ''s.py'' os_path_file) = [''os.path'']"
    by (simp add: analyze_imports_forbidden [OF r t] denied_examples)
  have v: "\<not> ar_valid (analyze_imports os_path_lib ''s.py'' os_path_file)"
    by (rule analyze_imports_invalid [OF r t, of "''os.path''"]) (simp_all add: denied_examples)
  have d: "''os'' \<in> forbidden" by (simp add: forbidden_def)
  from r t f v d show ?thesis by simp
qed

text \<open>
  C1. When the syntax tree of a file contains an import, direct or through
  \<open>from ... import\<close>, of a name whose part before the first dot is deny-listed, the
  report of the static analyzer is invalid and the name, as the statement writes it, is
  among its forbidden imports; this covers every import of a name that is itself on the
  deny list. The forbidden imports of the report are exactly the denied names of the
  import statements, in the order of the tree, followed by the dangerous calls. For a
  file whose tree is the single statement \<open>import socket\<close> the report is invalid with
  exactly \<open>socket\<close> as forbidden imports.
\<close>

theorem analyze_imports_deny_listed:
  assumes "read_text f = Returns content" and "ast_parse lib content = Tree nodes"
  shows "(n \<in> set (imported_names nodes) \<and> takeWhile (\<lambda>c. c \<noteq> CHR ''.'') n \<in> forbidden \<longrightarrow>
            \<not> ar_valid (analyze_imports lib name f) \<and>
            n \<in> set (forbidden_imports (analyze_imports lib name f))) \<and>
         (n \<in> set (imported_names nodes) \<and> n \<in> forbidden \<longrightarrow>
            \<not> ar_valid (analyze_imports lib name f) \<and>
            n \<in> set (forbidden_imports (analyze_imports lib name f))) \<and>
         forbidden_imports (analyze_imports lib name f) =
            filter denied (imported_names nodes) @ dangerous_calls nodes \<and>
         (nodes = [OtherNode, Import [''socket''], OtherNode] \<longrightarrow>
            \<not> ar_valid (analyze_imports lib name f) \<and>
            forbidden_imports (analyze_imports lib name f) = [''socket''])"
proof -
  note fb = analyze_imports_forbidden [OF assms]
  have general: "\<not> ar_valid (analyze_imports lib name f) \<and>
            m \<in> set (forbidden_imports (analyze_imports lib name f))"
    if "m \<in> set (imported_names nodes)" and "denied m" for m
    using that analyze_imports_invalid [OF assms that] by (simp add: fb)
  have socket: "\<not> ar_valid (analyze_imports lib name f) \<and>
            forbidden_imports (analyze_imports lib name f) = [''socket'']"
    if "nodes = [OtherNode, Import [''socket''], OtherNode]"
    using general [of "''socket''"] that by (simp add: fb denied_examples)
  show ?thesis
    using general [of n] socket forbidden_denied [of n] fb
    by (auto simp: denied_def)
qed

theorem analyze_imports_deny_listed_witness:
  "read_text os_path_file = Returns ''import os.path'' \<and>
   ast_parse os_path_lib ''import os.path'' = Tree [OtherNode, Import [''os.path''], OtherNode] \<and>
   ''os.path'' \<in> set (imported_names [OtherNode, Import [''os.path''], OtherNode]) \<and>
   takeWhile (\<lambda>c. c \<noteq> CHR ''.'') ''os.path'' = ''os'' \<and> ''os'' \<in> forbidden \<and>
   \<not> ar_valid (analyze_imports os_path_lib ''s.py'' os_path_file) \<and>
   ''os.path'' \<in> set (forbidden_imports (analyze_imports os_path_lib ''s.py'' os_path_file)) \<and>
   read_text urllib_file = Returns ''from urllib.request import urlopen'' \<and>
   ast_parse urllib_lib ''from urllib.request import urlopen'' =
     Tree [OtherNode, ImportFrom (Some ''urllib.request''), OtherNode] \<and>
   takeWhile (\<lambda>c. c \<noteq> CHR ''.'') ''urllib.request'' = ''urllib'' \<and> ''urllib'' \<in> forbidden \<and>
   \<not> ar_valid (analyze_imports urllib_lib ''u.py'' urllib_file) \<and>
   forbidden_imports (analyze_imports urllib_lib ''u.py'' urllib_file) = [''urllib.request''] \<and>
   read_text socket_file = Returns ''import socket'' \<and>
   ast_parse socket_lib ''import socket'' = Tree [OtherNode, Import [''socket''], OtherNode] \<and>
   ''socket'' \<in> forbidden \<and>
   \<not> ar_valid (analyze_imports socket_lib ''s.py'' socket_file) \<and>
   forbidden_imports (analyze_imports socket_lib ''s.py'' socket_file) = [''socket'']"
  using analyze_imports_deny_listed [where f = os_path_file and content = "''import os.path''"
      and lib = os_path_lib and nodes = "[OtherNode, Import [''os.path''], OtherNode]"
      and n = "''os.path''" and name = "''s.py''"]
    analyze_imports_deny_listed [where f = urllib_file
      and content = "''from urllib.request import urlopen''"
      and lib = urllib_lib and nodes = "[OtherNode, ImportFrom (Some ''urllib.request''), OtherNode]"
      and n = "''urllib.request''" and name = "''u.py''"]
    analyze_imports_deny_listed [where f = socket_file and content = "''import socket''"
      and lib = socket_lib and nodes = "[OtherNode, Import [''socket''], OtherNode]"
      and n = "''socket''" and name = "''s.py''"]
  by (simp add: os_path_lib_def os_path_file_def urllib_lib_def urllib_file_def socket_lib_def
      socket_file_def one_statement_def file_of_def forbidden_def denied_def)

section \<open>The file size limit of the requirements checker\<close>

lemma check_lines_keeps: "rejected e r \<Longrightarrow> rejected e (check_lines c r)"
  by (simp add: rejected_def check_lines_def Let_def)

lemma check_imports_keeps: "rejected e r \<Longrightarrow> rejected e (check_imports a r)"
  by (simp add: rejected_def check_imports_def Let_def)

lemma check_class_keeps: "rejected e r \<Longrightarrow> rejected e (check_class c r)"
  by (simp add: rejected_def check_class_def)

lemma check_docstrings_keeps: "rejected e r \<Longrightarrow> rejected e (check_docstrings c r)"
  by (simp add: rejected_def check_docstrings_def)

lemma check_required_keeps:
  "rejected e r \<Longrightarrow> check_required lib c p r = Returns r' \<Longrightarrow> rejected e r'"
  by (auto simp: rejected_def check_required_def Let_def split: if_splits)

lemma check_required_all_keeps:
  "rejected e r \<Longrightarrow> rejected e (fst (check_required_all lib c ps r))"
proof (induction ps arbitrary: r)
  case Nil
  then show ?case by simp
next
  case (Cons p ps)
  show ?case
  proof (cases "check_required lib c p r")
    case (Raises x)
    with Cons.prems show ?thesis by simp
  next
    case (Returns r')
    with Cons.prems have "rejected e r'" by (simp add: check_required_keeps)
    with Returns Cons.IH show ?thesis by simp
  qed
qed

lemma check_suspicious_step_keeps:
  "rejected e r \<Longrightarrow> rejected e (check_suspicious lib c p r)"
  by (simp add: rejected_def check_suspicious_def)

lemma check_suspicious_keeps:
  "rejected e r \<Longrightarrow> rejected e (fold (check_suspicious lib c) ps r)"
  by (induction ps arbitrary: r) (simp_all add: check_suspicious_step_keeps)

lemma requirements_failed_keeps: "rejected e r \<Longrightarrow> rejected e (requirements_failed x r)"
  by (simp add: rejected_def requirements_failed_def)

lemma check_content_keeps:
  assumes "rejected e r"
  shows "rejected e (check_content lib name f content r)"
proof -
  let ?r3 = "check_class content
               (check_imports (analyze_imports lib name f) (check_lines content r))"
  have r3: "rejected e ?r3"
    using assms by (simp add: check_class_keeps check_imports_keeps check_lines_keeps)
  obtain r1 x where cra: "check_required_all lib content required_patterns ?r3 = (r1, x)"
    by (cases "check_required_all lib content required_patterns ?r3")
  from r3 have "rejected e (fst (check_required_all lib content required_patterns ?r3))"
    by (rule check_required_all_keeps)
  with cra have r1: "rejected e r1" by simp
  show ?thesis
  proof (cases x)
    case None
    with cra r1 show ?thesis
      by (simp add: check_content_def check_suspicious_keeps check_docstrings_keeps)
  next
    case (Some msg)
    with cra r1 show ?thesis
      by (simp add: check_content_def requirements_failed_keeps)
  qed
qed

lemma check_size_rejects:
  "n > 100 * 1024 \<Longrightarrow> rejected (FileTooLarge n) (check_size n r)"
  by (simp add: rejected_def check_size_def Let_def)

lemma too_large_rejected:
  assumes "stat_size f = Returns n" and "n > 100 * 1024"
  shows "rejected (FileTooLarge n) (check_strategy_requirements lib name f)"
proof -
  have r: "rejected (FileTooLarge n) (check_size n (initial_report name))"
    using assms(2) by (rule check_size_rejects)
  show ?thesis
  proof (cases "read_text f")
    case (Raises e)
    with assms(1) r show ?thesis
      by (simp add: check_strategy_requirements_def requirements_failed_keeps)
  next
    case (Returns content)
    with assms(1) r show ?thesis
      by (simp add: check_strategy_requirements_def check_content_keeps)
  qed
qed

lemma same_verdict_refl: "same_verdict r r"
  by (simp add: same_verdict_def)

lemma check_lines_same: "same_verdict r r' \<Longrightarrow> same_verdict (check_lines c r) (check_lines c r')"
  by (simp add: same_verdict_def check_lines_def Let_def)

lemma check_imports_same:
  "same_verdict r r' \<Longrightarrow> same_verdict (check_imports a r) (check_imports a r')"
  by (simp add: same_verdict_def check_imports_def Let_def)

lemma check_class_same: "same_verdict r r' \<Longrightarrow> same_verdict (check_class c r) (check_class c r')"
  by (simp add: same_verdict_def check_class_def)

lemma check_docstrings_same:
  "same_verdict r r' \<Longrightarrow> same_verdict (check_docstrings c r) (check_docstrings c r')"
  by (simp add: same_verdict_def check_docstrings_def)

lemma check_suspicious_step_same:
  "same_verdict r r' \<Longrightarrow> same_verdict (check_suspicious lib c p r) (check_suspicious lib c p r')"
  by (simp add: same_verdict_def check_suspicious_def)

lemma check_suspicious_same:
  "same_verdict r r' \<Longrightarrow>
   same_verdict (fold (check_suspicious lib c) ps r) (fold (check_suspicious lib c) ps r')"
proof (induction ps arbitrary: r r')
  case Nil
  then show ?case by simp
next
  case (Cons p ps)
  from Cons.prems have "same_verdict (check_suspicious lib c p r) (check_suspicious lib c p r')"
    by (rule check_suspicious_step_same)
  then show ?case using Cons.IH by simp
qed

lemma requirements_failed_same:
  "same_verdict r r' \<Longrightarrow> same_verdict (requirements_failed x r) (requirements_failed x r')"
  by (simp add: same_verdict_def requirements_failed_def)

lemma check_required_all_same:
  "same_verdict r r' \<Longrightarrow>
   snd (check_required_all lib c ps r) = snd (check_required_all lib c ps r') \<and>
   same_verdict (fst (check_required_all lib c ps r)) (fst (check_required_all lib c ps r'))"
proof (induction ps arbitrary: r r')
  case Nil
  then show ?case by simp
next
  case (Cons p ps)
  show ?case
  proof (cases "re_search lib p False c")
    case True
    then have "check_required lib c p r = Returns r" "check_required lib c p r' = Returns r'"
      by (simp_all add: check_required_def)
    with Cons show ?thesis by simp
  next
    case False
    show ?thesis
    proof (cases "length (py_split (bsl @ ''s+'') p) \<le> 1")
      case True
      with False have "check_required lib c p r = Raises ''list index out of range''"
        "check_required lib c p r' = Raises ''list index out of range''"
        by (simp_all add: check_required_def Let_def)
      with Cons.prems show ?thesis by simp
    next
      case long: False
      let ?m = "MissingMethod (py_split (bsl @ ''s+'') p ! 1)"
      let ?u = "\<lambda>r. r\<lparr>rq_valid := False, rq_errors := rq_errors r @ [?m]\<rparr>"
      from False long have eq: "check_required lib c p r = Returns (?u r)"
        "check_required lib c p r' = Returns (?u r')"
        by (simp_all add: check_required_def Let_def)
      from Cons.prems have "same_verdict (?u r) (?u r')"
        by (simp add: same_verdict_def)
      from Cons.IH[OF this] eq show ?thesis by simp
    qed
  qed
qed

lemma analyze_imports_size:
  "analyze_imports lib name (f\<lparr>stat_size := x\<rparr>) = analyze_imports lib name f"
  by (simp add: analyze_imports_def)

lemma check_content_alt:
  "check_content lib name f content r =
     (let p = check_required_all lib content required_patterns
                (check_class content
                  (check_imports (analyze_imports lib name f) (check_lines content r)))
      in case snd p of
           Some e \<Rightarrow> requirements_failed e (fst p)
         | None \<Rightarrow> fold (check_suspicious lib content) suspicious_patterns
                     (check_docstrings content (fst p)))"
  by (cases "check_required_all lib content required_patterns
                (check_class content
                  (check_imports (analyze_imports lib name f) (check_lines content r)))")
     (simp add: check_content_def split: option.splits)

lemma check_content_same:
  assumes "same_verdict r r'"
  shows "same_verdict (check_content lib name f content r)
           (check_content lib name (f\<lparr>stat_size := x\<rparr>) content r')"
proof -
  let ?a = "analyze_imports lib name f"
  let ?p = "check_required_all lib content required_patterns
              (check_class content (check_imports ?a (check_lines content r)))"
  let ?p' = "check_required_all lib content required_patterns
              (check_class content (check_imports ?a (check_lines content r')))"
  have "same_verdict (check_class content (check_imports ?a (check_lines content r)))
          (check_class content (check_imports ?a (check_lines content r')))"
    using assms by (intro check_class_same check_imports_same check_lines_same)
  then have both: "snd ?p = snd ?p' \<and> same_verdict (fst ?p) (fst ?p')"
    by (rule check_required_all_same)
  show ?thesis
  proof (cases "snd ?p'")
    case None
    have "same_verdict
            (fold (check_suspicious lib content) suspicious_patterns
               (check_docstrings content (fst ?p)))
            (fold (check_suspicious lib content) suspicious_patterns
               (check_docstrings content (fst ?p')))"
      using both by (intro check_suspicious_same check_docstrings_same) simp
    with None both show ?thesis
      unfolding check_content_alt analyze_imports_size Let_def by simp
  next
    case (Some msg)
    have "same_verdict (requirements_failed msg (fst ?p)) (requirements_failed msg (fst ?p'))"
      using both by (intro requirements_failed_same) simp
    with Some both show ?thesis
      unfolding check_content_alt analyze_imports_size Let_def by simp
  qed
qed

lemma check_size_same:
  "n \<le> 100 * 1024 \<Longrightarrow> m \<le> 100 * 1024 \<Longrightarrow> same_verdict (check_size n r) (check_size m r)"
  by (simp add: same_verdict_def check_size_def Let_def)

lemma small_size_same:
  assumes "stat_size f = Returns n" and "n \<le> 100 * 1024" and "m \<le> 100 * 1024"
  shows "same_verdict (check_strategy_requirements lib name f)
           (check_strategy_requirements lib name (f\<lparr>stat_size := Returns m\<rparr>))"
proof -
  have s: "same_verdict (check_size n (initial_report name)) (check_size m (initial_report name))"
    using assms(2,3) by (rule check_size_same)
  show ?thesis
  proof (cases "read_text f")
    case (Raises e)
    with assms(1) s show ?thesis
      by (simp add: check_strategy_requirements_def requirements_failed_same)
  next
    case (Returns content)
    with assms(1) s show ?thesis
      by (simp add: check_strategy_requirements_def check_content_same)
  qed
qed

text \<open>
  C9. A candidate file of more than 100 * 1024 bytes is marked invalid by the
  requirements checker, with the error \<open>File too large\<close>; for sizes at or below the
  limit the verdict does not depend on the size.
\<close>

theorem file_size_limit:
  assumes "stat_size f = Returns n"
  shows "(n > 100 * 1024 \<longrightarrow>
            \<not> rq_valid (check_strategy_requirements lib name f) \<and>
            FileTooLarge n \<in> set (rq_errors (check_strategy_requirements lib name f))) \<and>
         (n \<le> 100 * 1024 \<and> m \<le> 100 * 1024 \<longrightarrow>
            rq_valid (check_strategy_requirements lib name (f\<lparr>stat_size := Returns m\<rparr>)) =
            rq_valid (check_strategy_requirements lib name f))"
proof (intro conjI impI)
  assume "n > 100 * 1024"
  with assms have "rejected (FileTooLarge n) (check_strategy_requirements lib name f)"
    by (rule too_large_rejected)
  then show "\<not> rq_valid (check_strategy_requirements lib name f)"
    and "FileTooLarge n \<in> set (rq_errors (check_strategy_requirements lib name f))"
    by (simp_all add: rejected_def)
next
  assume "n \<le> 100 * 1024 \<and> m \<le> 100 * 1024"
  with assms have "same_verdict (check_strategy_requirements lib name f)
           (check_strategy_requirements lib name (f\<lparr>stat_size := Returns m\<rparr>))"
    by (simp add: small_size_same)
  then show "rq_valid (check_strategy_requirements lib name (f\<lparr>stat_size := Returns m\<rparr>)) =
            rq_valid (check_strategy_requirements lib name f)"
    by (simp add: same_verdict_def)
qed

theorem file_size_limit_witness:
  "stat_size big_file = Returns 102401 \<and> (102401 :: nat) > 100 * 1024 \<and>
   \<not> rq_valid (check_strategy_requirements plain_lib ''big.py'' big_file) \<and>
   FileTooLarge 102401 \<in> set (rq_errors (check_strategy_requirements plain_lib ''big.py'' big_file)) \<and>
   stat_size small_file = Returns 50 \<and> (50 :: nat) \<le> 100 * 1024 \<and> (102400 :: nat) \<le> 100 * 1024 \<and>
   rq_valid (check_strategy_requirements plain_lib ''small.py''
              (small_file\<lparr>stat_size := Returns 102400\<rparr>)) =
   rq_valid (check_strategy_requirements plain_lib ''small.py'' small_file)"
  using file_size_limit [where f = big_file and n = 102401 and lib = plain_lib
        and name = "''big.py''" and m = 0]
    file_size_limit [where f = small_file and n = 50 and lib = plain_lib
        and name = "''small.py''" and m = 102400]
  by (simp add: big_file_def small_file_def)

section \<open>Construction of a strategy\<close>

lemma example_init:
  "strategy_init example_class [''bankroll'' \<mapsto> PInt 500] =
     Inr \<lparr>config = map_of [(''contributor_name'', PStr ''YSS Team''),
         (''strategy_description'', PStr ''Simple Martingale progression on red''),
         (''bankroll'', PInt 1000)] ++ [''bankroll'' \<mapsto> PInt 500],
          contributor_name = PStr ''YSS Team'',
          strategy_description = PStr ''Simple Martingale progression on red'',
          bankroll = PInt 500, base_bet = PInt 10, state = Some 0\<rparr>"
  by (simp add: strategy_init_def example_class_def dict_get_def)

text \<open>
  C8. When a strategy is constructed with any overrides, the configuration is the
  defaults of \<open>get_defaults()\<close> overridden by the overrides: an override wins on every
  key it has, every other key keeps its default. The recognised fields are taken from
  that configuration, \<open>bankroll\<close> defaulting to 1000 and \<open>base_bet\<close> to 10 when absent,
  and \<open>_initialize_state\<close> is then invoked on the instance so filled in.
\<close>

theorem strategy_init_config:
  assumes "strategy_init cls kwargs = Inr inst"
  shows "\<exists>defaults inst0.
           cls_get_defaults cls = Returns (PDict defaults) \<and>
           config inst0 = map_of defaults ++ kwargs \<and>
           (\<forall>k v. kwargs k = Some v \<longrightarrow> config inst0 k = Some v) \<and>
           (\<forall>k. kwargs k = None \<longrightarrow> config inst0 k = map_of defaults k) \<and>
           config inst0 ''contributor_name'' = Some (contributor_name inst0) \<and>
           config inst0 ''strategy_description'' = Some (strategy_description inst0) \<and>
           bankroll inst0 = (case config inst0 ''bankroll'' of None \<Rightarrow> PInt 1000 | Some v \<Rightarrow> v) \<and>
           base_bet inst0 = (case config inst0 ''base_bet'' of None \<Rightarrow> PInt 10 | Some v \<Rightarrow> v) \<and>
           state inst0 = None \<and>
           initialize_state cls inst0 = Returns inst"
proof -
  from assms obtain defaults where d: "cls_get_defaults cls = Returns (PDict defaults)"
    by (auto simp: strategy_init_def split: outcome.splits pyval.splits)
  let ?cfg = "map_of defaults ++ kwargs"
  from assms d obtain cn where cn: "?cfg ''contributor_name'' = Some cn"
    by (auto simp: strategy_init_def Let_def split: option.splits)
  from assms d cn obtain sd where sd: "?cfg ''strategy_description'' = Some sd"
    by (auto simp: strategy_init_def Let_def split: option.splits)
  let ?i = "\<lparr>config = ?cfg, contributor_name = cn, strategy_description = sd,
             bankroll = dict_get ?cfg ''bankroll'' (PInt 1000),
             base_bet = dict_get ?cfg ''base_bet'' (PInt 10), state = None\<rparr>"
  from assms d cn sd have h: "initialize_state cls ?i = Returns inst"
    by (auto simp: strategy_init_def Let_def split: outcome.splits)
  have "cls_get_defaults cls = Returns (PDict defaults) \<and>
           config ?i = map_of defaults ++ kwargs \<and>
           (\<forall>k v. kwargs k = Some v \<longrightarrow> config ?i k = Some v) \<and>
           (\<forall>k. kwargs k = None \<longrightarrow> config ?i k = map_of defaults k) \<and>
           config ?i ''contributor_name'' = Some (contributor_name ?i) \<and>
           config ?i ''strategy_description'' = Some (strategy_description ?i) \<and>
           bankroll ?i = (case config ?i ''bankroll'' of None \<Rightarrow> PInt 1000 | Some v \<Rightarrow> v) \<and>
           base_bet ?i = (case config ?i ''base_bet'' of None \<Rightarrow> PInt 10 | Some v \<Rightarrow> v) \<and>
           state ?i = None \<and>
           initialize_state cls ?i = Returns inst"
    using d cn sd h by (simp add: dict_get_def map_add_def)
  then show ?thesis by blast
qed

theorem strategy_init_config_witness:
  "strategy_init example_class [''bankroll'' \<mapsto> PInt 500] =
     Inr \<lparr>config = map_of [(''contributor_name'', PStr ''YSS Team''),
         (''strategy_description'', PStr ''Simple Martingale progression on red''),
         (''bankroll'', PInt 1000)] ++ [''bankroll'' \<mapsto> PInt 500],
          contributor_name = PStr ''YSS Team'',
          strategy_description = PStr ''Simple Martingale progression on red'',
          bankroll = PInt 500, base_bet = PInt 10, state = Some 0\<rparr> \<and>
   (\<exists>defaults inst0.
      cls_get_defaults example_class = Returns (PDict defaults) \<and>
      config inst0 = map_of defaults ++ [''bankroll'' \<mapsto> PInt 500] \<and>
      bankroll inst0 = (case config inst0 ''bankroll'' of None \<Rightarrow> PInt 1000 | Some v \<Rightarrow> v) \<and>
      base_bet inst0 = (case config inst0 ''base_bet'' of None \<Rightarrow> PInt 10 | Some v \<Rightarrow> v) \<and>
      initialize_state example_class inst0 =
        Returns \<lparr>config = map_of [(''contributor_name'', PStr ''YSS Team''),
         (''strategy_description'', PStr ''Simple Martingale progression on red''),
         (''bankroll'', PInt 1000)] ++ [''bankroll'' \<mapsto> PInt 500],
          contributor_name = PStr ''YSS Team'',
          strategy_description = PStr ''Simple Martingale progression on red'',
          bankroll = PInt 500, base_bet = PInt 10, state = Some 0\<rparr>)"
proof -
  note run = example_init
  from strategy_init_config [OF run] obtain defaults inst0 where
    "cls_get_defaults example_class = Returns (PDict defaults)"
    "config inst0 = map_of defaults ++ [''bankroll'' \<mapsto> PInt 500]"
    "bankroll inst0 = (case config inst0 ''bankroll'' of None \<Rightarrow> PInt 1000 | Some v \<Rightarrow> v)"
    "base_bet inst0 = (case config inst0 ''base_bet'' of None \<Rightarrow> PInt 10 | Some v \<Rightarrow> v)"
    "initialize_state example_class inst0 =
        Returns \<lparr>config = map_of [(''contributor_name'', PStr ''YSS Team''),
         (''strategy_description'', PStr ''Simple Martingale progression on red''),
         (''bankroll'', PInt 1000)] ++ [''bankroll'' \<mapsto> PInt 500],
          contributor_name = PStr ''YSS Team'',
          strategy_description = PStr ''Simple Martingale progression on red'',
          bankroll = PInt 500, base_bet = PInt 10, state = Some 0\<rparr>"
    by blast
  with run show ?thesis by blast
qed

section \<open>Validity of a strategy file is decided by its metadata\<close>

lemma invalidate_invalid [simp]: "\<not> vr_valid (invalidate e r)"
  by (simp add: invalidate_def)

lemma warn_valid [simp]: "vr_valid (warn w r) = vr_valid r"
  by (simp add: warn_def)

lemma check_field_raises: "check_field d f r = Raises e \<Longrightarrow> \<not> field_ok d f"
  by (auto simp: check_field_def field_ok_def split: option.splits if_splits outcome.splits)

lemma check_field_returns:
  "check_field d f r = Returns r' \<Longrightarrow> vr_valid r' = (vr_valid r \<and> field_ok d f)"
  by (auto simp: check_field_def field_ok_def split: option.splits if_splits outcome.splits)

lemma check_fields_valid:
  "(snd (check_fields d fs r) = None \<and> vr_valid (fst (check_fields d fs r))) =
   (vr_valid r \<and> list_all (field_ok d) fs)"
proof (induction fs arbitrary: r)
  case Nil
  show ?case by simp
next
  case (Cons f fs)
  show ?case
  proof (cases "check_field d f r")
    case (Raises e)
    then show ?thesis by (simp add: check_field_raises)
  next
    case (Returns r')
    then show ?thesis using Cons.IH[of r'] by (auto simp: check_field_returns)
  qed
qed

lemma check_recommended_step_valid:
  "vr_valid (check_recommended d f r) = vr_valid r"
  by (simp add: check_recommended_def)

lemma check_recommended_valid:
  "vr_valid (fold (check_recommended d) fs r) = vr_valid r"
  by (induction fs arbitrary: r) (simp_all add: check_recommended_step_valid)

lemma validate_defaults_valid:
  assumes "has_get_defaults c"
  shows "vr_valid (validate_defaults c r) = (vr_valid r \<and> metadata_ok c)"
proof (cases "get_defaults c")
  case (Raises e)
  with assms show ?thesis by (simp add: validate_defaults_def metadata_ok_def)
next
  case (Returns v)
  show ?thesis
  proof (cases "\<exists>d. v = PDict d")
    case False
    with assms Returns show ?thesis
      by (cases v) (simp_all add: validate_defaults_def metadata_ok_def)
  next
    case True
    then obtain d where v: "v = PDict d" by blast
    let ?fs = "[''contributor_name'', ''strategy_description'']"
    obtain r1 x where cf: "check_fields d ?fs r = (r1, x)"
      by (cases "check_fields d ?fs r")
    from check_fields_valid[of d ?fs r] cf
    have iff: "(x = None \<and> vr_valid r1) = (vr_valid r \<and> list_all (field_ok d) ?fs)" by simp
    show ?thesis
    proof (cases x)
      case None
      with assms Returns v cf iff show ?thesis
        by (simp add: validate_defaults_def metadata_ok_def check_recommended_step_valid
            del: check_fields.simps)
    next
      case (Some e)
      with assms Returns v cf iff show ?thesis
        by (simp add: validate_defaults_def metadata_ok_def del: check_fields.simps)
    qed
  qed
qed

lemma validate_defaults_absent:
  "\<not> has_get_defaults c \<Longrightarrow> validate_defaults c r = r"
  by (simp add: validate_defaults_def)

lemma check_methods_valid:
  "has_place_bet c \<Longrightarrow> vr_valid (check_methods c r) = (vr_valid r \<and> has_get_defaults c)"
  by (simp add: check_methods_def)

lemma check_docstring_readable:
  "doc_readable c \<Longrightarrow>
   check_docstring c r = Returns r \<or> check_docstring c r = Returns (warn NeedsDocstring r)"
  by (cases "cls_doc c") (simp_all add: check_docstring_def doc_readable_def)

lemma check_docstring_unreadable:
  "\<not> doc_readable c \<Longrightarrow> \<exists>e. check_docstring c r = Raises e"
  by (cases "cls_doc c") (simp_all add: check_docstring_def doc_readable_def)

lemma check_signature_valid:
  "vr_valid (check_signature c r) =
     (vr_valid r \<and> (has_place_bet c \<longrightarrow> (\<exists>ps. place_bet_params c = Returns ps)))"
  by (simp add: check_signature_def split: outcome.splits)

lemma metadata_checks_valid:
  assumes "has_place_bet c"
  shows "vr_valid (validate_defaults c (check_methods c r)) = (vr_valid r \<and> metadata_ok c)"
proof (cases "has_get_defaults c")
  case True
  with assms show ?thesis
    by (simp add: validate_defaults_valid check_methods_valid)
next
  case False
  with assms show ?thesis
    by (simp add: validate_defaults_absent check_methods_valid metadata_ok_def)
qed

lemma strategy_classes_place_bet:
  "strategy_classes m = c # cs \<Longrightarrow> has_place_bet c"
proof -
  assume "strategy_classes m = c # cs"
  then have "c \<in> set (strategy_classes m)" by simp
  then show ?thesis by (auto simp: strategy_classes_def)
qed

lemma validate_class_valid:
  assumes "has_place_bet c"
  shows "vr_valid (validate_class c r) =
           (vr_valid r \<and> metadata_ok c \<and> doc_readable c \<and>
            (\<exists>ps. place_bet_params c = Returns ps))"
proof (cases "doc_readable c")
  case True
  from check_docstring_readable [OF True, of "validate_defaults c (check_methods c r)"]
  show ?thesis
    using assms True
    by (auto simp: validate_class_def Let_def check_signature_valid metadata_checks_valid)
next
  case False
  from check_docstring_unreadable [OF False, of "validate_defaults c (check_methods c r)"]
  show ?thesis
    using False by (auto simp: validate_class_def Let_def)
qed

lemma validate_found:
  assumes "load_module L = Inr m" and "strategy_classes m = c # cs"
  shows "validate_strategy_file name L =
     validate_class c
       (if cs \<noteq> [] then warn (MultipleClasses (map cls_name (c # cs))) (initial_validation name)
        else initial_validation name)"
  using assms by (simp add: validate_strategy_file_def)

lemma initial_validation_valid: "vr_valid (initial_validation name)"
  by (simp add: initial_validation_def)

lemma validate_valid_iff:
  assumes "load_module L = Inr m" and "strategy_classes m = c # cs"
  shows "vr_valid (validate_strategy_file name L) =
           (metadata_ok c \<and> doc_readable c \<and> (\<exists>ps. place_bet_params c = Returns ps))"
proof -
  have pb: "has_place_bet c" using assms(2) by (rule strategy_classes_place_bet)
  show ?thesis
    unfolding validate_found[OF assms]
    using pb by (simp add: validate_class_valid initial_validation_valid)
qed

lemma validate_admits:
  assumes "vr_valid (validate_strategy_file name L)"
  shows "\<exists>m c cs. load_module L = Inr m \<and> strategy_classes m = c # cs \<and> metadata_ok c"
proof (cases "load_module L")
  case (Inl e)
  with assms show ?thesis by (simp add: validate_strategy_file_def)
next
  case (Inr m)
  show ?thesis
  proof (cases "strategy_classes m")
    case Nil
    with Inr assms show ?thesis by (simp add: validate_strategy_file_def)
  next
    case (Cons c cs)
    with Inr assms validate_valid_iff[OF Inr Cons, of name] show ?thesis by simp
  qed
qed

lemma field_ok_str:
  "map_of d f = Some (PStr s) \<Longrightarrow> field_ok d f = (s \<noteq> [] \<and> str_strip s \<noteq> [])"
  by (simp add: field_ok_def)

lemma has_error_invalidate: "has_error e (invalidate e r)"
  by (simp add: has_error_def invalidate_def)

lemma has_error_warn: "has_error e r \<Longrightarrow> has_error e (warn w r)"
  by (simp add: has_error_def warn_def)

lemma has_error_kept: "has_error e r \<Longrightarrow> has_error e (invalidate e' r)"
  by (simp add: has_error_def invalidate_def)

lemma has_error_signature: "has_error e r \<Longrightarrow> has_error e (check_signature c r)"
  by (simp add: has_error_def check_signature_def warn_def invalidate_def split: outcome.splits)

lemma has_error_validate_class:
  assumes "has_error e (validate_defaults c (check_methods c r))"
  shows "has_error e (validate_class c r)"
proof (cases "doc_readable c")
  case True
  from check_docstring_readable [OF True, of "validate_defaults c (check_methods c r)"]
  show ?thesis
    using assms by (auto simp: validate_class_def Let_def has_error_signature has_error_warn)
next
  case False
  from check_docstring_unreadable [OF False, of "validate_defaults c (check_methods c r)"]
  show ?thesis
    using assms by (auto simp: validate_class_def Let_def has_error_kept)
qed

lemma validate_defaults_not_dict:
  assumes "has_get_defaults c" and "get_defaults c = Returns v" and "\<forall>d. v \<noteq> PDict d"
  shows "validate_defaults c r = invalidate DefaultsNotDict r"
  using assms by (cases v) (simp_all add: validate_defaults_def)

lemma not_dict_rejected:
  assumes "load_module L = Inr m" and "strategy_classes m = c # cs"
    and "has_get_defaults c" and "get_defaults c = Returns v" and "\<forall>d. v \<noteq> PDict d"
  shows "\<not> vr_valid (validate_strategy_file name L) \<and>
         DefaultsNotDict \<in> set (vr_errors (validate_strategy_file name L))"
proof -
  have "has_error DefaultsNotDict (validate_strategy_file name L)"
    unfolding validate_found[OF assms(1,2)]
    by (rule has_error_validate_class)
       (simp add: validate_defaults_not_dict[OF assms(3,4,5)] has_error_invalidate)
  then show ?thesis by (simp add: has_error_def)
qed

lemma nsw_warn: "w \<noteq> PlaceBetSignature \<Longrightarrow> no_signature_warning (warn w r) = no_signature_warning r"
  by (auto simp: no_signature_warning_def warn_def)

lemma nsw_invalidate: "no_signature_warning (invalidate e r) = no_signature_warning r"
  by (simp add: no_signature_warning_def invalidate_def)

lemma nsw_check_methods: "no_signature_warning (check_methods c r) = no_signature_warning r"
  by (simp add: check_methods_def nsw_invalidate)

lemma nsw_check_field:
  "check_field d f r = Returns r' \<Longrightarrow> no_signature_warning r' = no_signature_warning r"
  by (auto simp: check_field_def nsw_invalidate split: option.splits if_splits outcome.splits)

lemma nsw_check_fields:
  "no_signature_warning (fst (check_fields d fs r)) = no_signature_warning r"
proof (induction fs arbitrary: r)
  case Nil
  show ?case by simp
next
  case (Cons f fs)
  show ?case
  proof (cases "check_field d f r")
    case (Raises e)
    then show ?thesis by simp
  next
    case (Returns r')
    then show ?thesis using Cons.IH[of r'] by (simp add: nsw_check_field)
  qed
qed

lemma nsw_check_recommended_step:
  "no_signature_warning (check_recommended d f r) = no_signature_warning r"
  by (simp add: check_recommended_def nsw_warn)

lemma nsw_check_recommended:
  "no_signature_warning (fold (check_recommended d) fs r) = no_signature_warning r"
  by (induction fs arbitrary: r) (simp_all add: nsw_check_recommended_step)

lemma nsw_metadata: "no_signature_warning (r\<lparr>vr_metadata := d\<rparr>) = no_signature_warning r"
  by (simp add: no_signature_warning_def)

lemma nsw_validate_defaults:
  "no_signature_warning (validate_defaults c r) = no_signature_warning r"
proof (cases "has_get_defaults c")
  case False
  then show ?thesis by (simp add: validate_defaults_absent)
next
  case True
  show ?thesis
  proof (cases "get_defaults c")
    case (Raises e)
    with True show ?thesis by (simp add: validate_defaults_def nsw_invalidate)
  next
    case (Returns v)
    show ?thesis
    proof (cases "\<exists>d. v = PDict d")
      case False
      with True Returns show ?thesis
        by (simp add: validate_defaults_not_dict nsw_invalidate)
    next
      case yes: True
      then obtain d where v: "v = PDict d" by blast
      let ?fs = "[''contributor_name'', ''strategy_description'']"
      obtain r1 x where cf: "check_fields d ?fs r = (r1, x)"
        by (cases "check_fields d ?fs r")
      from nsw_check_fields[of d ?fs r] cf
      have r1: "no_signature_warning r1 = no_signature_warning r" by simp
      show ?thesis
      proof (cases x)
        case None
        with True Returns v cf r1 show ?thesis
          by (simp add: validate_defaults_def nsw_check_recommended_step nsw_metadata
              del: check_fields.simps)
      next
        case (Some e)
        with True Returns v cf r1 show ?thesis
          by (simp add: validate_defaults_def nsw_invalidate del: check_fields.simps)
      qed
    qed
  qed
qed

lemma check_signature_warning:
  assumes "has_place_bet c" and "place_bet_params c = Returns ps" and "no_signature_warning r"
  shows "(PlaceBetSignature \<in> set (vr_warnings (check_signature c r))) =
         (length ps < 2 \<or> ps ! 1 \<noteq> ''game_state'')"
  using assms by (simp add: check_signature_def warn_def no_signature_warning_def)

lemma nsw_initial:
  "no_signature_warning
     (if cs \<noteq> [] then warn (MultipleClasses ns) (initial_validation name)
      else initial_validation name)"
  by (simp add: no_signature_warning_def warn_def initial_validation_def)

lemma validate_class_warning:
  assumes "has_place_bet c" and "place_bet_params c = Returns ps" and "no_signature_warning r"
  shows "(PlaceBetSignature \<in> set (vr_warnings (validate_class c r))) =
         (doc_readable c \<and> (length ps < 2 \<or> ps ! 1 \<noteq> ''game_state''))"
proof -
  let ?r1 = "validate_defaults c (check_methods c r)"
  have r1: "no_signature_warning ?r1"
    using assms(3) by (simp only: nsw_validate_defaults nsw_check_methods)
  show ?thesis
  proof (cases "doc_readable c")
    case True
    from check_docstring_readable [OF True, of ?r1]
    show ?thesis
    proof
      assume "check_docstring c ?r1 = Returns ?r1"
      with True check_signature_warning [OF assms(1,2) r1] show ?thesis
        by (simp add: validate_class_def Let_def)
    next
      assume d: "check_docstring c ?r1 = Returns (warn NeedsDocstring ?r1)"
      have "no_signature_warning (warn NeedsDocstring ?r1)"
        using r1 by (simp add: nsw_warn)
      from check_signature_warning [OF assms(1,2) this] d True show ?thesis
        by (simp add: validate_class_def Let_def)
    qed
  next
    case False
    from check_docstring_unreadable [OF False, of ?r1]
    obtain e where "check_docstring c ?r1 = Raises e" by blast
    with False r1 show ?thesis
      by (simp add: validate_class_def Let_def nsw_invalidate [unfolded no_signature_warning_def]
          no_signature_warning_def)
  qed
qed

lemma path_name_plain: "path_name ''bytes_strategy.py'' = ''bytes_strategy.py''"
  by (simp add: path_name_def py_split_def)

lemma load_loader_of: "load_module (loader_of c) = Inr [(cls_name c, c)]"
  by (simp add: load_module_def loader_of_def)

lemma endswith_BytesStrategy: "endswith ''BytesStrategy'' ''Strategy''"
  by (simp add: endswith_def)

lemma classes_bytes: "strategy_classes [(cls_name bytes_strategy, bytes_strategy)] = [bytes_strategy]"
  by (simp add: strategy_classes_def bytes_strategy_def strategy_with_def endswith_def)

lemma metadata_ok_bytes: "metadata_ok bytes_strategy"
  by (simp add: metadata_ok_def bytes_strategy_def strategy_with_def field_ok_def
      strip_with_def is_ascii_space_def str_strip_def is_space_def)

text \<open>
  C6. The validator was to admit only classes whose \<open>get_defaults()\<close> gives non-empty
  strings for both required fields. It admits a class whose \<open>contributor_name\<close> is the
  bytes value \<open>b"YSS Team"\<close>: the value is truthy and its \<open>strip()\<close> is not equal to the
  empty string, so the report is valid, without errors or warnings.
\<close>

theorem validator_admits_bytes_metadata:
  "validate_strategy_file ''bytes_strategy.py'' (loader_of bytes_strategy) =
     \<lparr>vr_file = ''bytes_strategy.py'', vr_valid = True, vr_errors = [], vr_warnings = [],
      vr_metadata = [(''contributor_name'', PBytes ''YSS Team''),
         (''strategy_description'', PStr ''Simple Martingale progression on red''),
         (''bankroll'', PInt 1000), (''base_bet'', PInt 10), (''target_profit'', PInt 100)]\<rparr>"
  unfolding validate_found[OF load_loader_of classes_bytes]
  by (simp add: bytes_strategy_def strategy_with_def check_methods_def validate_defaults_def
      check_field_def check_recommended_def check_docstring_def check_signature_def
      validate_class_def initial_validation_def path_name_plain
      example_doc_def strip_with_def is_ascii_space_def str_strip_def is_space_def)

text \<open>
  C7. The parameters of \<open>place_bet\<close> do not decide validity: when the strategy class is
  found and its signature can be read, the file is valid exactly when the metadata
  checks pass and the docstring check does not raise, that is when \<open>__doc__\<close> is
  falsy, a string or bytes. The report has the warning of the signature check exactly
  when the docstring check did not raise and \<open>place_bet\<close> has fewer than two
  parameters, the receiver included, or its second parameter is not named
  \<open>game_state\<close>.
\<close>

theorem place_bet_arity_is_a_warning:
  assumes "load_module L = Inr m" and "strategy_classes m = c # cs"
    and "place_bet_params c = Returns ps"
  shows "vr_valid (validate_strategy_file name L) = (metadata_ok c \<and> doc_readable c) \<and>
         (PlaceBetSignature \<in> set (vr_warnings (validate_strategy_file name L))) =
         (doc_readable c \<and> (length ps < 2 \<or> ps ! 1 \<noteq> ''game_state''))"
proof
  show "vr_valid (validate_strategy_file name L) = (metadata_ok c \<and> doc_readable c)"
    using assms(3) by (simp add: validate_valid_iff[OF assms(1,2)])
  have pb: "has_place_bet c" using assms(2) by (rule strategy_classes_place_bet)
  show "(PlaceBetSignature \<in> set (vr_warnings (validate_strategy_file name L))) =
         (doc_readable c \<and> (length ps < 2 \<or> ps ! 1 \<noteq> ''game_state''))"
    unfolding validate_found[OF assms(1,2)]
    by (rule validate_class_warning [OF pb assms(3) nsw_initial])
qed

lemma classes_three_arg:
  "strategy_classes [(cls_name three_arg_strategy, three_arg_strategy)] = [three_arg_strategy]"
  by (simp add: strategy_classes_def three_arg_strategy_def strategy_with_def endswith_def)

lemma metadata_ok_three_arg: "metadata_ok three_arg_strategy"
  by (simp add: metadata_ok_def three_arg_strategy_def strategy_with_def field_ok_def
      strip_with_def str_strip_def is_space_def)

lemma doc_readable_three_arg: "doc_readable three_arg_strategy"
  by (simp add: doc_readable_def three_arg_strategy_def strategy_with_def)

lemma classes_numbered_doc:
  "strategy_classes [(cls_name numbered_doc_strategy, numbered_doc_strategy)] =
     [numbered_doc_strategy]"
  by (simp add: strategy_classes_def numbered_doc_strategy_def strategy_with_def endswith_def)

lemma metadata_ok_numbered_doc: "metadata_ok numbered_doc_strategy"
  by (simp add: metadata_ok_def numbered_doc_strategy_def strategy_with_def field_ok_def
      strip_with_def str_strip_def is_space_def)

lemma doc_unreadable_numbered_doc: "\<not> doc_readable numbered_doc_strategy"
  by (simp add: doc_readable_def numbered_doc_strategy_def strategy_with_def)

theorem place_bet_arity_is_a_warning_witness:
  "load_module (loader_of three_arg_strategy) =
     Inr [(cls_name three_arg_strategy, three_arg_strategy)] \<and>
   strategy_classes [(cls_name three_arg_strategy, three_arg_strategy)] = [three_arg_strategy] \<and>
   place_bet_params three_arg_strategy = Returns [''self'', ''game_state'', ''limit''] \<and>
   vr_valid (validate_strategy_file ''three_arg_strategy.py'' (loader_of three_arg_strategy)) \<and>
   PlaceBetSignature \<notin>
     set (vr_warnings (validate_strategy_file ''three_arg_strategy.py''
            (loader_of three_arg_strategy))) \<and>
   load_module (loader_of numbered_doc_strategy) =
     Inr [(cls_name numbered_doc_strategy, numbered_doc_strategy)] \<and>
   strategy_classes [(cls_name numbered_doc_strategy, numbered_doc_strategy)] =
     [numbered_doc_strategy] \<and>
   place_bet_params numbered_doc_strategy = Returns [''self''] \<and>
   metadata_ok numbered_doc_strategy \<and>
   cls_doc numbered_doc_strategy = PInt 123 \<and>
   \<not> vr_valid (validate_strategy_file ''numbered_doc_strategy.py''
                 (loader_of numbered_doc_strategy)) \<and>
   PlaceBetSignature \<notin>
     set (vr_warnings (validate_strategy_file ''numbered_doc_strategy.py''
            (loader_of numbered_doc_strategy)))"
proof -
  have p: "place_bet_params three_arg_strategy = Returns [''self'', ''game_state'', ''limit'']"
    by (simp add: three_arg_strategy_def strategy_with_def)
  have q: "place_bet_params numbered_doc_strategy = Returns [''self'']"
    by (simp add: numbered_doc_strategy_def strategy_with_def)
  have d: "cls_doc numbered_doc_strategy = PInt 123"
    by (simp add: numbered_doc_strategy_def strategy_with_def)
  from place_bet_arity_is_a_warning [OF load_loader_of classes_three_arg p,
      of "''three_arg_strategy.py''"]
    place_bet_arity_is_a_warning [OF load_loader_of classes_numbered_doc q,
      of "''numbered_doc_strategy.py''"]
  show ?thesis
    using p q d
    by (simp add: load_loader_of classes_three_arg metadata_ok_three_arg doc_readable_three_arg
        classes_numbered_doc metadata_ok_numbered_doc doc_unreadable_numbered_doc)
qed

lemma classes_no_arg:
  "strategy_classes [(cls_name no_arg_strategy, no_arg_strategy)] = [no_arg_strategy]"
  by (simp add: strategy_classes_def no_arg_strategy_def strategy_with_def endswith_def)

lemma metadata_ok_no_arg: "metadata_ok no_arg_strategy"
  by (simp add: metadata_ok_def no_arg_strategy_def strategy_with_def field_ok_def
      strip_with_def str_strip_def is_space_def)

lemma doc_readable_no_arg: "doc_readable no_arg_strategy"
  by (simp add: doc_readable_def no_arg_strategy_def strategy_with_def)

text \<open>
  A class whose \<open>place_bet\<close> takes no parameter beyond the receiver is admitted.
\<close>

theorem place_bet_without_parameter_admitted:
  "place_bet_params no_arg_strategy = Returns [''self''] \<and>
   vr_valid (validate_strategy_file ''no_arg_strategy.py'' (loader_of no_arg_strategy))"
proof
  show p: "place_bet_params no_arg_strategy = Returns [''self'']"
    by (simp add: no_arg_strategy_def strategy_with_def)
  show "vr_valid (validate_strategy_file ''no_arg_strategy.py'' (loader_of no_arg_strategy))"
    using p
    by (simp add: validate_valid_iff[OF load_loader_of classes_no_arg] metadata_ok_no_arg
        doc_readable_no_arg)
qed

section \<open>Rounds and spins of the benchmark harness\<close>

lemma on_exception_break: "on_exception e s = Break s' \<Longrightarrow> sim_error s' \<noteq> None"
  by (auto simp: on_exception_def Let_def split: if_splits)

lemma on_exception_continue:
  "on_exception e s = Continue s' \<Longrightarrow> s' = s\<lparr>sim_errors := sim_errors s + 1\<rparr>"
  by (auto simp: on_exception_def Let_def split: if_splits)

lemma on_exception_stays: "on_exception e s \<noteq> Escape code"
  by (simp add: on_exception_def Let_def)

lemma count_bet_fields [simp]:
  "world (count_bet a s) = world s"
  "sim_errors (count_bet a s) = sim_errors s" "sim_error (count_bet a s) = sim_error s"
  by (simp_all add: count_bet_def)

lemma spin_wheel_fields [simp]:
  "sim_errors (spin_wheel env i s) = sim_errors s" "sim_error (spin_wheel env i s) = sim_error s"
  "world (spin_wheel env i s) =
     (world s)\<lparr>game := add_result (fst (randint env (others env (2 * i + 1) (generator (world s)))))
                         (game (world s)),
               generator := snd (randint env (others env (2 * i + 1) (generator (world s))))\<rparr>"
  by (simp_all add: spin_wheel_def split: prod.splits)

lemma before_call_game [simp]: "game (before_call env i w) = game w"
  by (simp add: before_call_def)


lemma kinds:
  "skipped r \<Longrightarrow> \<not> completed r \<and> \<not> failed_call r"
  "failed_call r \<Longrightarrow> \<not> completed r \<and> \<not> skipped r"
  "completed r \<Longrightarrow> \<not> failed_call r \<and> \<not> skipped r"
  by (auto simp: skipped_def completed_def failed_call_def split: call.splits outcome.splits)

text \<open>The five ways a round can go.\<close>

lemma play_round_cases:
  obtains
    (timeout) "elapsed_at env i > of_int t"
      "play_round env c t i s = Break (s\<lparr>sim_error := Some (Timeout t)\<rparr>)"
  | (exit) code w1 where "\<not> elapsed_at env i > of_int t"
      "place_bet c (before_call env i (world s)) = (Exited code, w1)"
      "play_round env c t i s = Escape code"
  | (skip) w1 where "\<not> elapsed_at env i > of_int t"
      "place_bet c (before_call env i (world s)) = (Returned PNone, w1)"
      "play_round env c t i s = Continue (s\<lparr>world := w1\<rparr>)"
  | (raise) r e w1 where "\<not> elapsed_at env i > of_int t"
      "place_bet c (before_call env i (world s)) = (r, w1)" "failed_call r"
      "play_round env c t i s = on_exception e (s\<lparr>world := w1\<rparr>)"
  | (bet) r a w1 where "\<not> elapsed_at env i > of_int t"
      "place_bet c (before_call env i (world s)) = (r, w1)" "completed r"
      "play_round env c t i s = Continue (spin_wheel env i (count_bet a (s\<lparr>world := w1\<rparr>)))"
proof (cases "elapsed_at env i > of_int t")
  case True
  then show ?thesis using timeout by (simp add: play_round_def)
next
  case nt: False
  obtain r w1 where pb: "place_bet c (before_call env i (world s)) = (r, w1)"
    by (cases "place_bet c (before_call env i (world s))")
  show ?thesis
  proof (cases r)
    case (Exited code)
    with nt pb show ?thesis using exit[of code w1] by (simp add: play_round_def)
  next
    case (Raised e)
    with nt pb show ?thesis
      using raise[of r w1 e] by (simp add: play_round_def failed_call_def)
  next
    case (Returned v)
    show ?thesis
    proof (cases "v = PNone")
      case True
      with nt pb Returned show ?thesis using skip[of w1] by (simp add: play_round_def)
    next
      case False
      show ?thesis
      proof (cases "bet_amount_of v")
        case (Raises e)
        with nt pb Returned False show ?thesis
          using raise[of r w1 e] by (simp add: play_round_def failed_call_def)
      next
        case a: (Returns a)
        with nt pb Returned False show ?thesis
          using bet[of r w1 a] by (simp add: play_round_def completed_def)
      qed
    qed
  qed
qed

lemma play_round_effect:
  assumes "play_round env c t i s = Continue s1"
    and "place_bet c (before_call env i (world s)) = (r, w1)"
  shows "round_effect env i r w1 s s1"
proof (cases rule: play_round_cases[where env=env and i=i and t=t and c=c and s=s])
  case timeout
  with assms show ?thesis by simp
next
  case (exit code w1)
  with assms show ?thesis by simp
next
  case (skip w')
  with assms have "r = Returned PNone" "w' = w1" "s1 = s\<lparr>world := w1\<rparr>" by simp_all
  then show ?thesis
    by (simp add: round_effect_def skipped_def completed_def failed_call_def)
next
  case (raise r' e w')
  with assms have r: "r' = r" "w' = w1" and c: "on_exception e (s\<lparr>world := w1\<rparr>) = Continue s1"
    by simp_all
  from on_exception_continue [OF c] raise(3) r kinds(2)[of r] show ?thesis
    by (simp add: round_effect_def)
next
  case (bet r' a w')
  with assms have r: "r' = r" "w' = w1"
    and c: "s1 = spin_wheel env i (count_bet a (s\<lparr>world := w1\<rparr>))"
    by simp_all
  from bet(3) r c show ?thesis
    by (simp add: round_effect_def)
qed






lemma play_round_break: "play_round env c t i s = Break s' \<Longrightarrow> sim_error s' \<noteq> None"
  by (cases rule: play_round_cases[where env=env and i=i and t=t and c=c and s=s])
     (auto dest: on_exception_break)

text \<open>
  One turn of a loop that ends without error: the round let the loop go on, and the
  rest of the loop ends in the same state.
\<close>

lemma loop_step:
  assumes "sim_loop env c t (Suc k) i s = Inr s'" and "sim_error s' = None"
  obtains r w1 s1 where
    "place_bet c (before_call env i (world s)) = (r, w1)"
    "play_round env c t i s = Continue s1"
    "round_effect env i r w1 s s1"
    "sim_loop env c t k (Suc i) s1 = Inr s'"
    "calls env c t (Suc k) i s =
       (before_call env i (world s), r, w1) # calls env c t k (Suc i) s1"
proof -
  obtain r w1 where pb: "place_bet c (before_call env i (world s)) = (r, w1)"
    by (cases "place_bet c (before_call env i (world s))")
  show ?thesis
  proof (cases "play_round env c t i s")
    case (Break s2)
    with assms play_round_break[OF Break] show ?thesis by simp
  next
    case (Escape code)
    with assms show ?thesis by simp
  next
    case (Continue s1)
    have nt: "\<not> elapsed_at env i > of_int t"
      using Continue by (auto simp: play_round_def)
    from Continue pb have "round_effect env i r w1 s s1" by (rule play_round_effect)
    moreover from Continue assms have "sim_loop env c t k (Suc i) s1 = Inr s'" by simp
    moreover from Continue pb nt have "calls env c t (Suc k) i s =
       (before_call env i (world s), r, w1) # calls env c t k (Suc i) s1" by simp
    ultimately show ?thesis using that pb Continue by blast
  qed
qed








lemma run_found:
  assumes "instantiate c = Returned st" and "read_defaults c = Returned d"
  shows "run_strategy_benchmark env (Module (Some c)) name num_spins timeout =
           (case sim_loop env c timeout (nat num_spins) 0 (initial_sim env st d) of
              Inl code \<Rightarrow> Inl code
            | Inr s \<Rightarrow> Inr (finish env (initial_result name) s))"
  using assms by (simp add: run_strategy_benchmark_def)

lemma finish_fields:
  "success (finish env r s)" "error (finish env r s) = sim_error s"
  "map_option spins_completed (br_metrics (finish env r s)) = Some (spin_count (game (world s)))"
  "map_option errors_encountered (br_metrics (finish env r s)) = Some (sim_errors s)"
  "map_option total_bets_placed (br_metrics (finish env r s)) = Some (bet_count s)"
  "br_file (finish env r s) = br_file r"
  by (simp_all add: finish_def Let_def)




lemma nat_3: "nat 3 = Suc (Suc (Suc 0))"
  by simp



















text \<open>
  A strategy that adds five to the \<open>spin_count\<close> of the game state in each of three
  rounds: the harness reports eighteen completed spins.
\<close>

lemma meddler_setup:
  "instantiate meddler = Returned ()" "read_defaults meddler = Returned example_defaults"
  by (simp_all add: meddler_def read_defaults_def)

lemma meddler_round:
  "play_round seeded_env meddler 30 i s =
     Continue (spin_wheel seeded_env i
       (count_bet 10
          (s\<lparr>world := (world s)\<lparr>game := (game (world s))
                \<lparr>spin_count := spin_count (game (world s)) + 5\<rparr>\<rparr>\<rparr>)))"
  by (simp add: play_round_def seeded_env_def meddler_def before_call_def red_bet_def
      bet_amount_of_def)

lemma meddled_spin_count_is_reported:
  "map_sum id (\<lambda>r. map_option spins_completed (br_metrics r))
     (run_strategy_benchmark seeded_env (Module (Some meddler)) ''meddler.py'' 3 30) =
   Inr (Some 18)"
  unfolding run_found [OF meddler_setup] nat_3
  by (simp add: meddler_round finish_fields initial_sim_def mock_game_state_def add_result_def
      count_bet_def)

section \<open>The error budget and the timeout\<close>

lemma raises_setup:
  "instantiate always_raises = Returned ()"
  "read_defaults always_raises = Returned example_defaults"
  by (simp_all add: always_raises_def read_defaults_def)

lemma raises_round: "play_round seeded_env always_raises 30 i s = on_exception ''boom'' s"
  by (simp add: play_round_def seeded_env_def always_raises_def before_call_def)

lemma raises_loop:
  "sim_errors s \<le> 10 \<Longrightarrow> 11 \<le> sim_errors s + k \<Longrightarrow>
   sim_loop seeded_env always_raises 30 k i s =
     Inr (s\<lparr>sim_errors := 11, sim_error := Some (TooManyErrors ''boom'')\<rparr>)"
proof (induction k arbitrary: i s)
  case 0
  then show ?case by simp
next
  case (Suc k)
  show ?case
  proof (cases "sim_errors s = 10")
    case True
    then have "on_exception ''boom'' s =
        Break (s\<lparr>sim_errors := 11, sim_error := Some (TooManyErrors ''boom'')\<rparr>)"
      by (simp add: on_exception_def Let_def)
    then show ?thesis by (simp add: raises_round)
  next
    case False
    with Suc.prems have lt: "sim_errors s < 10" by simp
    let ?s1 = "s\<lparr>sim_errors := sim_errors s + 1\<rparr>"
    from lt have c: "on_exception ''boom'' s = Continue ?s1"
      by (simp add: on_exception_def Let_def)
    have "sim_errors ?s1 \<le> 10" and "11 \<le> sim_errors ?s1 + k"
      using lt Suc.prems by simp_all
    from Suc.IH[OF this] c show ?thesis by (simp add: raises_round)
  qed
qed

lemma raises_run:
  "run_strategy_benchmark seeded_env (Module (Some always_raises)) ''always_raises.py'' 1000 30 =
     Inr \<lparr>br_file = ''always_raises.py'', success = True,
          error = Some (TooManyErrors ''boom''),
          br_metrics = Some
            \<lparr>spins_completed = 0, total_bets_placed = 0, m_total_bet_amount = 0,
             average_bet = 0, m_max_bet = 0, m_min_bet = 0, bet_variance = 0,
             errors_encountered = 11, execution_time_ms = 1000, bets_per_second = 0\<rparr>,
          execution_time = 1\<rparr>"
proof -
  have "sim_loop seeded_env always_raises 30 (nat 1000) 0 (initial_sim seeded_env () example_defaults)
        = Inr ((initial_sim seeded_env () example_defaults)
                 \<lparr>sim_errors := 11, sim_error := Some (TooManyErrors ''boom'')\<rparr>)"
    by (rule raises_loop) (simp_all add: initial_sim_def)
  then show ?thesis
    unfolding run_found [OF raises_setup]
    by (simp add: finish_def initial_result_def initial_sim_def mock_game_state_def
        seeded_env_def Let_def)
qed

lemma summary_of_success:
  "success r \<Longrightarrow> benchmark_summary (\<lambda>n. Done r) [f] =
     Inr \<lparr>total_strategies = 1, successful = 1, failed = 0, failed_strategies = []\<rparr>"
  by (simp add: benchmark_summary_def summary_of_def)

text \<open>
  C3. A strategy that raises in every round, benchmarked for 1000 rounds: the eleventh
  exception ends the loop with the error \<open>Too many errors during simulation\<close>, eleven
  errors are counted and no spin is completed. The result is nevertheless marked
  successful, and the aggregator counts the file as successful and does not list it
  among the failed strategies.
\<close>

theorem too_many_errors_reported_as_success:
  "run_strategy_benchmark seeded_env (Module (Some always_raises)) ''always_raises.py'' 1000 30 =
     Inr \<lparr>br_file = ''always_raises.py'', success = True,
          error = Some (TooManyErrors ''boom''),
          br_metrics = Some
            \<lparr>spins_completed = 0, total_bets_placed = 0, m_total_bet_amount = 0,
             average_bet = 0, m_max_bet = 0, m_min_bet = 0, bet_variance = 0,
             errors_encountered = 11, execution_time_ms = 1000, bets_per_second = 0\<rparr>,
          execution_time = 1\<rparr> \<and>
   benchmark_summary
     (\<lambda>n. future_of True
            (run_strategy_benchmark seeded_env (Module (Some always_raises))
               ''always_raises.py'' 1000 30))
     [''always_raises.py''] =
     Inr \<lparr>total_strategies = 1, successful = 1, failed = 0, failed_strategies = []\<rparr>"
  unfolding raises_run by (simp add: summary_of_success future_of_def)

lemma flat_setup:
  "instantiate flat_bettor = Returned ()" "read_defaults flat_bettor = Returned example_defaults"
  by (simp_all add: flat_bettor_def read_defaults_def)

lemma slow_round_early:
  "i < 3 \<Longrightarrow>
   play_round slow_env flat_bettor 30 i s = Continue (spin_wheel slow_env i (count_bet 10 s))"
  by (simp add: play_round_def slow_env_def flat_bettor_def bet_amount_of_def before_call_def)

lemma slow_round_late:
  "3 \<le> i \<Longrightarrow>
   play_round slow_env flat_bettor 30 i s = Break (s\<lparr>sim_error := Some (Timeout 30)\<rparr>)"
  by (simp add: play_round_def slow_env_def)

lemma slow_loop:
  "sim_loop slow_env flat_bettor 30 (Suc (Suc (Suc (Suc k)))) 0 s =
     Inr ((spin_wheel slow_env 2 (count_bet 10 (spin_wheel slow_env 1 (count_bet 10
       (spin_wheel slow_env 0 (count_bet 10 s))))))\<lparr>sim_error := Some (Timeout 30)\<rparr>)"
  by (simp add: slow_round_early slow_round_late numeral_2_eq_2)

lemma nat_1000: "nat 1000 = Suc (Suc (Suc (Suc 996)))"
  by simp

lemma slow_run:
  "run_strategy_benchmark slow_env (Module (Some flat_bettor)) ''slow.py'' 1000 30 =
     Inr \<lparr>br_file = ''slow.py'', success = True, error = Some (Timeout 30),
          br_metrics = Some
            \<lparr>spins_completed = 3, total_bets_placed = 3, m_total_bet_amount = 30,
             average_bet = 10, m_max_bet = 10, m_min_bet = 10, bet_variance = 0,
             errors_encountered = 0, execution_time_ms = 31000, bets_per_second = 3 / 31\<rparr>,
          execution_time = 31\<rparr>"
  unfolding run_found [OF flat_setup] nat_1000 slow_loop
  by (simp add: finish_def initial_result_def initial_sim_def mock_game_state_def
      count_bet_def spin_wheel_def add_result_def slow_env_def next_draw_def Let_def)

lemma candidate_single: "candidate_files [''slow.py''] = [''slow.py'']"
  by (simp add: candidate_files_def)

text \<open>
  C4. A run in which the clock passes the timeout of 30 seconds at the fourth round: the
  loop stops with the error \<open>Timeout after 30s\<close> and the metrics of the three rounds
  played are kept. The result is nevertheless marked successful, the aggregator counts
  it as successful and lists no failed strategy, and the run is accepted.
\<close>

theorem timeout_reported_as_success:
  "run_strategy_benchmark slow_env (Module (Some flat_bettor)) ''slow.py'' 1000 30 =
     Inr \<lparr>br_file = ''slow.py'', success = True, error = Some (Timeout 30),
          br_metrics = Some
            \<lparr>spins_completed = 3, total_bets_placed = 3, m_total_bet_amount = 30,
             average_bet = 10, m_max_bet = 10, m_min_bet = 10, bet_variance = 0,
             errors_encountered = 0, execution_time_ms = 31000, bets_per_second = 3 / 31\<rparr>,
          execution_time = 31\<rparr> \<and>
   benchmark_summary
     (\<lambda>n. future_of True
            (run_strategy_benchmark slow_env (Module (Some flat_bettor)) ''slow.py'' 1000 30))
     [''slow.py''] =
     Inr \<lparr>total_strategies = 1, successful = 1, failed = 0, failed_strategies = []\<rparr> \<and>
   benchmark_all_strategies
     (\<lambda>n. future_of True
            (run_strategy_benchmark slow_env (Module (Some flat_bettor)) ''slow.py'' 1000 30))
     written [''slow.py''] = Inr True"
  unfolding slow_run
  by (simp add: summary_of_success benchmark_all_strategies_def candidate_single future_of_def
      written_def)

section \<open>Acceptance of a benchmark run\<close>








lemma flat_round:
  "play_round seeded_env flat_bettor 30 i s =
     Continue (spin_wheel seeded_env i (count_bet 10 s))"
  by (simp add: play_round_def seeded_env_def flat_bettor_def bet_amount_of_def before_call_def)

lemma flat_loop_returns: "\<exists>s'. sim_loop seeded_env flat_bettor 30 k i s = Inr s'"
  by (induction k arbitrary: i s) (simp_all add: flat_round)

lemma flat_future_done: "\<exists>r. flat_future n = Done r \<and> success r"
proof -
  obtain s' where "sim_loop seeded_env flat_bettor 30 (nat 3) 0
      (initial_sim seeded_env () example_defaults) = Inr s'"
    using flat_loop_returns by blast
  then show ?thesis
    unfolding flat_future_def run_found [OF flat_setup]
    by (simp add: future_of_def finish_fields)
qed

lemma flat_future_kind [simp]: "succeeded (flat_future n)" "\<not> exits (flat_future n)"
  using flat_future_done [of n] by (auto simp: succeeded_def exits_def)

lemma classless_future_kind [simp]:
  "\<not> succeeded (classless_future n)" "\<not> exits (classless_future n)"
  by (simp_all add: classless_future_def future_of_def run_strategy_benchmark_def
      initial_result_def succeeded_def exits_def)

lemma unloadable_future_kind [simp]:
  "\<not> succeeded (unloadable_future n)" "\<not> exits (unloadable_future n)"
  by (simp_all add: unloadable_future_def future_of_def run_strategy_benchmark_def
      initial_result_def succeeded_def exits_def)


lemma timeout_kind [simp]: "\<not> succeeded FutureTimeout" "\<not> exits FutureTimeout"
  by (simp_all add: succeeded_def exits_def)











text \<open>
  A directory with one strategy that passes, and a report that cannot be written: the
  exception of the write leaves the function and the process exits with status one.
\<close>

lemma unwritten_report_fails_the_run:
  "successes flat_future [''a.py''] = 1 \<and> failures flat_future [''a.py''] = 0 \<and>
   exit_status (benchmark_all_strategies flat_future
      (\<lambda>s rs. Raises ''PermissionError'') [''a.py'']) = 1"
proof -
  obtain r where r: "flat_future ''a.py'' = Done r" "success r"
    using flat_future_done by blast
  then show ?thesis
    by (simp add: successes_def failures_def benchmark_all_strategies_def candidate_files_def
        exit_status_def)
qed

section \<open>A directory without candidate files\<close>

lemma no_candidates: "\<forall>n \<in> set names. n = ''__init__.py'' \<Longrightarrow> candidate_files names = []"
  by (auto simp: candidate_files_def filter_empty_conv)

lemma no_changed_files:
  "\<forall>f \<in> set (py_split [CHR 0x0A] (str_strip out)).
      \<not> (endswith f ''.py'' \<and> contains ''contributed'' f \<and> path_exists f) \<Longrightarrow>
   filter path_exists (changed_strategy_files out) = []"
  by (auto simp: changed_strategy_files_def filter_empty_conv)

text \<open>
  C10. For a directory whose listing of \<open>*.py\<close> files holds nothing but the package
  file \<open>__init__.py\<close>, the requirements check, the benchmark and the metadata
  validation return true and their processes exit with status zero. The validation does
  so whenever it scans the directory: outside PR mode, and in PR mode when the git
  command fails. In PR mode with a listing of changed files, where the input is that
  listing, it returns true when no line of the listing is a changed strategy file that
  exists.
\<close>

theorem empty_directory_succeeds:
  assumes "\<forall>n \<in> set names. n = ''__init__.py''"
  shows "check_all_requirements lib fs names \<and>
         exit_code (check_all_requirements lib fs names) = 0 \<and>
         benchmark_all_strategies futures write_report names = Inr True \<and>
         exit_status (benchmark_all_strategies futures write_report names) = 0 \<and>
         validate_all_strategies loaders git path_exists names False = Inr True \<and>
         validation_exit (validate_all_strategies loaders git path_exists names False) = 0 \<and>
         validate_all_strategies loaders GitFailed path_exists names True = Inr True \<and>
         ((\<forall>f \<in> set (py_split [CHR 0x0A] (str_strip out)).
             \<not> (endswith f ''.py'' \<and> contains ''contributed'' f \<and> path_exists f)) \<longrightarrow>
            validate_all_strategies loaders (GitStdout out) path_exists names True = Inr True)"
  using no_candidates [OF assms] no_changed_files [of out path_exists]
  by (simp add: check_all_requirements_def benchmark_all_strategies_def exit_status_def
      validate_all_strategies_def validate_files_def exit_code_def validation_exit_def Let_def)

theorem empty_directory_succeeds_witness:
  "filter (\<lambda>n. n \<noteq> ''__init__.py'') [''__init__.py''] = [] \<and>
   filter (\<lambda>f. endswith f ''.py'' \<and> contains ''contributed'' f)
     (py_split [CHR 0x0A] (str_strip ''README.md'')) = [] \<and>
   check_all_requirements plain_lib (\<lambda>n. small_file) [''__init__.py''] \<and>
   exit_code (check_all_requirements plain_lib (\<lambda>n. small_file) [''__init__.py'']) = 0 \<and>
   benchmark_all_strategies four_of_five written [''__init__.py''] = Inr True \<and>
   exit_status (benchmark_all_strategies four_of_five written [''__init__.py'']) = 0 \<and>
   validate_all_strategies (\<lambda>n. package_loader) GitFailed (\<lambda>p. True) [''__init__.py''] False
     = Inr True \<and>
   validation_exit
     (validate_all_strategies (\<lambda>n. package_loader) GitFailed (\<lambda>p. True) [''__init__.py'']
        False) = 0 \<and>
   validate_all_strategies (\<lambda>n. package_loader) GitFailed (\<lambda>p. True) [''__init__.py''] True
     = Inr True \<and>
   validate_all_strategies (\<lambda>n. package_loader) (GitStdout ''README.md'') (\<lambda>p. True)
     [''__init__.py''] True = Inr True"
proof -
  have n: "\<forall>n \<in> set [''__init__.py'']. n = ''__init__.py''" by simp
  have g: "\<forall>f \<in> set (py_split [CHR 0x0A] (str_strip ''README.md'')).
      \<not> (endswith f ''.py'' \<and> contains ''contributed'' f \<and> True)"
    by (simp add: str_strip_def strip_with_def is_space_def py_split_def endswith_def)
  from empty_directory_succeeds [OF n, where lib = plain_lib and fs = "\<lambda>n. small_file"
      and futures = four_of_five and write_report = written
      and loaders = "\<lambda>n. package_loader" and git = GitFailed and path_exists = "\<lambda>p. True"
      and out = "''README.md''"] n g
  have r: "check_all_requirements plain_lib (\<lambda>n. small_file) [''__init__.py''] \<and>
   exit_code (check_all_requirements plain_lib (\<lambda>n. small_file) [''__init__.py'']) = 0 \<and>
   benchmark_all_strategies four_of_five written [''__init__.py''] = Inr True \<and>
   exit_status (benchmark_all_strategies four_of_five written [''__init__.py'']) = 0 \<and>
   validate_all_strategies (\<lambda>n. package_loader) GitFailed (\<lambda>p. True) [''__init__.py''] False
     = Inr True \<and>
   validation_exit
     (validate_all_strategies (\<lambda>n. package_loader) GitFailed (\<lambda>p. True) [''__init__.py'']
        False) = 0 \<and>
   validate_all_strategies (\<lambda>n. package_loader) GitFailed (\<lambda>p. True) [''__init__.py''] True
     = Inr True \<and>
   validate_all_strategies (\<lambda>n. package_loader) (GitStdout ''README.md'') (\<lambda>p. True)
     [''__init__.py''] True = Inr True"
    by (simp add: exit_status_def exit_code_def validation_exit_def)
  have f: "filter (\<lambda>n. n \<noteq> ''__init__.py'') [''__init__.py''] = []" by simp
  have h: "filter (\<lambda>f. endswith f ''.py'' \<and> contains ''contributed'' f)
     (py_split [CHR 0x0A] (str_strip ''README.md'')) = []"
    using g by (simp add: filter_empty_conv)
  from f h r show ?thesis by blast
qed

lemma changed_init:
  "changed_strategy_files ''src/yss_strategies/contributed/__init__.py'' =
     [''src/yss_strategies/contributed/__init__.py'']"
  by (simp add: changed_strategy_files_def str_strip_def strip_with_def is_space_def
      py_split_def endswith_def)

text \<open>
  In PR mode the files validated are those of the git listing, the package file
  included: with a listing that names the package file of a directory that holds
  nothing else, the validation returns false.
\<close>

lemma pr_mode_validates_changed_files:
  "validate_all_strategies (\<lambda>n. package_loader)
     (GitStdout ''src/yss_strategies/contributed/__init__.py'') (\<lambda>p. True)
     [''__init__.py''] True = Inr False"
proof -
  have "\<not> vr_valid (validate_strategy_file ''src/yss_strategies/contributed/__init__.py''
                     package_loader)"
    by (simp add: validate_strategy_file_def load_module_def package_loader_def
        strategy_classes_def path_class_def endswith_def invalidate_def)
  then show ?thesis
    by (simp add: validate_all_strategies_def changed_init validate_files_def)
qed

end
